theory Spec2Isabelle
  imports Complex_Main "HOL-Library.AList"
begin

section \<open>Longitudinal planner of selfdrive/controls/lib/planner.py\<close>

text \<open>
  A shallow embedding of \<^verbatim>\<open>planner.py\<close>: the forward-collision-warning checker
  (\<^verbatim>\<open>FCWChecker\<close>), the time-gap network (\<^verbatim>\<open>FDistanceNet\<close>), the wrapper of the
  longitudinal MPC solver (\<^verbatim>\<open>LongitudinalMpc\<close>) and the planner itself (\<^verbatim>\<open>Planner\<close>).

  Numbers. A Python float is of type \<open>pyfloat\<close>, a real number or NaN: rounding,
  overflow and infinities are not represented, NaN is, because Python's \<^verbatim>\<open>min\<close>,
  \<^verbatim>\<open>max\<close> and comparisons treat NaN in a way that depends on the order of the
  operands. The time-to-collision and time-gap functions, the values the external MPC
  solver writes and every planner field computed from them are of this type. Inside the
  checker, the solver wrapper and the planner, the fields of the car state, of the radar
  leads and of the map, and the clock, are taken as numbers, of type \<^typ>\<open>real\<close>.
\<close>

subsection \<open>Python values, exceptions and floats\<close>

datatype error =
    TypeError
  | ValueError
  | IndexError
  | AttributeError
  | ZeroDivisionError
  | UnboundLocalError

definition bindE :: "error + 'a \<Rightarrow> ('a \<Rightarrow> error + 'b) \<Rightarrow> error + 'b" where
  "bindE m f = (case m of Inl e \<Rightarrow> Inl e | Inr x \<Rightarrow> f x)"

datatype pyfloat = Num real | NaN

fun is_nan :: "pyfloat \<Rightarrow> bool" where
  "is_nan NaN = True"
| "is_nan (Num x) = False"

text \<open>Comparison of floats: every comparison with NaN is false.\<close>

fun fl_lt :: "pyfloat \<Rightarrow> pyfloat \<Rightarrow> bool" where
  "fl_lt (Num x) (Num y) = (x < y)"
| "fl_lt _ _ = False"

definition fl_gt :: "pyfloat \<Rightarrow> pyfloat \<Rightarrow> bool" where
  "fl_gt a b = fl_lt b a"

fun fl_add :: "pyfloat \<Rightarrow> pyfloat \<Rightarrow> pyfloat" where
  "fl_add (Num x) (Num y) = Num (x + y)"
| "fl_add _ _ = NaN"

fun fl_sub :: "pyfloat \<Rightarrow> pyfloat \<Rightarrow> pyfloat" where
  "fl_sub (Num x) (Num y) = Num (x - y)"
| "fl_sub _ _ = NaN"

fun fl_mul :: "pyfloat \<Rightarrow> pyfloat \<Rightarrow> pyfloat" where
  "fl_mul (Num x) (Num y) = Num (x * y)"
| "fl_mul _ _ = NaN"

text \<open>Float division; Python raises \<^verbatim>\<open>ZeroDivisionError\<close> on a zero divisor.\<close>

fun fl_div :: "pyfloat \<Rightarrow> pyfloat \<Rightarrow> error + pyfloat" where
  "fl_div (Num x) (Num y) = (if y = 0 then Inl ZeroDivisionError else Inr (Num (x / y)))"
| "fl_div NaN (Num y) = (if y = 0 then Inl ZeroDivisionError else Inr NaN)"
| "fl_div _ NaN = Inr NaN"

text \<open>
  numpy's element-wise functions do not raise. \<^verbatim>\<open>np.minimum\<close> gives NaN as soon
  as one argument is NaN, \<^verbatim>\<open>np.sqrt\<close> gives NaN below 0, \<^verbatim>\<open>np.exp\<close> keeps NaN. The
  division of numpy floats by 0 gives an infinity or NaN; the model has no infinity and
  writes NaN there, and its one use has a divisor that is NaN or at least 0.1.
\<close>

fun np_minimum :: "pyfloat \<Rightarrow> pyfloat \<Rightarrow> pyfloat" where
  "np_minimum (Num x) (Num y) = Num (min x y)"
| "np_minimum _ _ = NaN"

fun np_sqrt :: "pyfloat \<Rightarrow> pyfloat" where
  "np_sqrt (Num x) = (if x < 0 then NaN else Num (sqrt x))"
| "np_sqrt NaN = NaN"

fun np_divide :: "pyfloat \<Rightarrow> pyfloat \<Rightarrow> pyfloat" where
  "np_divide (Num x) (Num y) = (if y = 0 then NaN else Num (x / y))"
| "np_divide _ _ = NaN"

text \<open>
  The builtins \<^verbatim>\<open>min(a, b)\<close> and \<^verbatim>\<open>max(a, b)\<close>: the first argument is kept
  unless the second compares strictly below (above) it. \<^verbatim>\<open>min(xs)\<close> on a sequence
  starts from the first element and raises \<^verbatim>\<open>ValueError\<close> on an empty one.
\<close>

definition py_min2 :: "pyfloat \<Rightarrow> pyfloat \<Rightarrow> pyfloat" where
  "py_min2 a b = (if fl_lt b a then b else a)"

definition py_max2 :: "pyfloat \<Rightarrow> pyfloat \<Rightarrow> pyfloat" where
  "py_max2 a b = (if fl_gt b a then b else a)"

fun py_min :: "pyfloat list \<Rightarrow> error + pyfloat" where
  "py_min [] = Inl ValueError"
| "py_min (x # xs) = Inr (foldl py_min2 x xs)"

text \<open>Indexing a sequence with a non-negative index.\<close>

definition py_index :: "'a list \<Rightarrow> nat \<Rightarrow> error + 'a" where
  "py_index xs i = (if i < length xs then Inr (xs ! i) else Inl IndexError)"

subsection \<open>Constants\<close>

definition A_Y_MAX :: real where
  "A_Y_MAX = 1.85"

text \<open>
  Modelled from the spec: \<^verbatim>\<open>CV.MPH_TO_MS\<close> of \<^verbatim>\<open>selfdrive.config\<close>, which is not
  among the sources. The spec gives \<^verbatim>\<open>NO_CURVATURE_SPEED\<close> as 200 mph, 89.408 m/s.
\<close>

definition MPH_TO_MS :: real where
  "MPH_TO_MS = 0.44704"

definition NO_CURVATURE_SPEED :: real where
  "NO_CURVATURE_SPEED = 200 * MPH_TO_MS"

definition DT :: real where
  "DT = 0.01"

definition DT_MPC :: real where
  "DT_MPC = 0.2"

definition AWARENESS_DECEL :: real where
  "AWARENESS_DECEL = - 0.2"

subsection \<open>\<^verbatim>\<open>FCWChecker.calc_ttc\<close>\<close>

text \<open>
  The second test of the \<^verbatim>\<open>if\<close> is evaluated only when the first is false; both
  are false when \<^verbatim>\<open>delta\<close> is NaN. The division by \<^verbatim>\<open>t_decel\<close> is Python's.
\<close>

definition calc_ttc ::
  "pyfloat \<Rightarrow> pyfloat \<Rightarrow> pyfloat \<Rightarrow> pyfloat \<Rightarrow> pyfloat \<Rightarrow> error + pyfloat" where
  "calc_ttc v_ego a_ego x_lead v_lead a_lead =
     (let max_ttc = Num 5.0;
          v_rel = fl_sub v_ego v_lead;
          a_rel0 = fl_sub a_ego a_lead;
          t_decel = Num 2
      in bindE (fl_div v_lead t_decel) (\<lambda>q.
           (let a_rel = np_minimum a_rel0 q;
                delta = fl_add (fl_mul v_rel v_rel) (fl_mul (fl_mul (Num 2) x_lead) a_rel)
            in if fl_lt delta (Num 0.1) \<or> fl_lt (fl_add (np_sqrt delta) v_rel) (Num 0.1)
               then Inr max_ttc
               else Inr (np_minimum
                           (np_divide (fl_mul (Num 2) x_lead) (fl_add (np_sqrt delta) v_rel))
                           max_ttc))))"

subsection \<open>\<^verbatim>\<open>FDistanceNet\<close>\<close>

text \<open>
  \<^verbatim>\<open>remap_range\<close> selects the two ranges by name; an unknown name leaves \<^verbatim>\<open>x\<close> and
  \<^verbatim>\<open>y\<close> unassigned, and the next line raises \<^verbatim>\<open>UnboundLocalError\<close>.
\<close>

definition remap_ranges :: "string \<Rightarrow> ((real \<times> real) \<times> (real \<times> real)) option" where
  "remap_ranges remapType =
     (if remapType = ''dist'' then Some ((1.0, 2.7), (0, 1.0))
      else if remapType = ''vel'' then Some ((0, 53.6448), (0, 1.0))
      else if remapType = ''rel_vel'' then Some ((- 8.9408, 3.12928), (0, 1.0))
      else if remapType = ''rvs_dist'' then Some ((0, 1.0), (0.67, 2.7))
      else if remapType = ''rvs_vel'' then Some ((0, 1.0), (0, 53.6448))
      else if remapType = ''rvs_rel_vel'' then Some ((0, 1.0), (- 8.9408, 3.12928))
      else None)"

text \<open>
  The clamp is \<^verbatim>\<open>min(max(remapped, y[0]), y[1])\<close> with the builtins, which keep
  a first argument that is NaN.
\<close>

definition remap_range :: "pyfloat \<Rightarrow> string \<Rightarrow> error + pyfloat" where
  "remap_range val remapType =
     (case remap_ranges remapType of
        None \<Rightarrow> Inl UnboundLocalError
      | Some ((x0, x1), (y0, y1)) \<Rightarrow>
          bindE (fl_div (fl_sub val (Num x0)) (Num (x1 - x0))) (\<lambda>q.
            (let remapped = fl_add (fl_mul q (Num (y1 - y0))) (Num y0)
             in Inr (py_min2 (py_max2 remapped (Num y0)) (Num y1)))))"

text \<open>\<^verbatim>\<open>1 / (1 + np.exp(-x))\<close> on a numpy float.\<close>

fun sigmoid :: "pyfloat \<Rightarrow> pyfloat" where
  "sigmoid (Num x) = Num (1 / (1 + exp (- x)))"
| "sigmoid NaN = NaN"

definition sigmoid_derivative :: "pyfloat \<Rightarrow> pyfloat" where
  "sigmoid_derivative x = fl_mul x (fl_sub (Num 1) x)"

definition synaptic_weights :: "real \<times> real" where
  "synaptic_weights = (3.0327508, - 2.07414288)"

text \<open>
  \<^verbatim>\<open>think\<close> on the two-element input array: both entries are remapped in place, the
  dot product with the weight column has one entry, and its sigmoid is remapped back
  to seconds. The \<^verbatim>\<open>try\<close> block repeats the same computation in its handler.
\<close>

definition think :: "pyfloat \<times> pyfloat \<Rightarrow> error + pyfloat" where
  "think inputs =
     bindE (remap_range (fst inputs) ''vel'') (\<lambda>i0.
     bindE (remap_range (snd inputs) ''rel_vel'') (\<lambda>i1.
       (let output = sigmoid (fl_add (fl_mul i0 (Num (fst synaptic_weights)))
                                     (fl_mul i1 (Num (snd synaptic_weights))))
        in remap_range output ''rvs_dist'')))"

text \<open>
  \<^verbatim>\<open>round(x, 2)\<close>: to the nearest hundredth, a tie away from zero; NaN stays NaN.
\<close>

definition py_round2 :: "real \<Rightarrow> real" where
  "py_round2 x =
     (if 0 \<le> x then real_of_int \<lfloor>x * 100 + 1 / 2\<rfloor> / 100
      else - (real_of_int \<lfloor>- x * 100 + 1 / 2\<rfloor> / 100))"

fun fl_round2 :: "pyfloat \<Rightarrow> pyfloat" where
  "fl_round2 (Num x) = Num (py_round2 x)"
| "fl_round2 NaN = NaN"

text \<open>\<^verbatim>\<open>LongitudinalMpc.generateTR\<close>, with the latched \<^verbatim>\<open>self.rel_vel\<close> as an argument.\<close>

definition generateTR :: "pyfloat \<Rightarrow> pyfloat \<Rightarrow> error + pyfloat" where
  "generateTR rel_v velocity =
     bindE (think (velocity, rel_v)) (\<lambda>r. Inr (fl_round2 r))"

subsection \<open>Interpolation\<close>

text \<open>
  Modelled from the spec: \<^verbatim>\<open>interp\<close> of \<^verbatim>\<open>common.numpy_fast\<close> (and \<^verbatim>\<open>np.interp\<close>),
  which are not among the sources. Given increasing breakpoints and as many values, the
  result is the piecewise-linear interpolation, clamped outside the range: the first
  value at or below the first breakpoint, the last value at or above the last one.
\<close>

fun interp :: "real \<Rightarrow> real list \<Rightarrow> real list \<Rightarrow> real" where
  "interp x (b0 # b1 # bs) (v0 # v1 # vs) =
     (if x \<le> b0 then v0
      else if x < b1 then v0 + (x - b0) * (v1 - v0) / (b1 - b0)
      else interp x (b1 # bs) (v1 # vs))"
| "interp x [b0] (v0 # vs) = v0"
| "interp x (b0 # bs) [v0] = v0"
| "interp x _ _ = 0"

definition FCW_A_ACT_V :: "real list" where
  "FCW_A_ACT_V = [- 3, - 2]"

definition FCW_A_ACT_BP :: "real list" where
  "FCW_A_ACT_BP = [0, 30]"

text \<open>\<^verbatim>\<open>generate_cost\<close>; the interpolation of NaN is NaN.\<close>

definition generate_cost :: "pyfloat \<Rightarrow> pyfloat" where
  "generate_cost distance =
     (let x = [0.9, 1.8, 2.7]; y = [1.0, 0.1, 0.05]
      in case distance of
           Num d \<Rightarrow> fl_round2 (Num (interp d x y))
         | NaN \<Rightarrow> NaN)"

subsection \<open>\<^verbatim>\<open>FCWChecker\<close>\<close>

text \<open>
  The counters are a \<^verbatim>\<open>defaultdict\<close> with default 0, kept as an association list:
  reading a missing key gives 0, and a store adds the key.
\<close>

record FCWChecker =
  last_fcw_a :: pyfloat
  v_lead_max :: real
  lead_seen_t :: real
  last_fcw_time :: real
  last_min_a :: pyfloat
  counters :: "(string \<times> real) list"

definition counter_get :: "(string \<times> real) list \<Rightarrow> string \<Rightarrow> real" where
  "counter_get cs k = (case map_of cs k of None \<Rightarrow> 0 | Some c \<Rightarrow> c)"

definition reset_lead :: "real \<Rightarrow> FCWChecker \<Rightarrow> FCWChecker" where
  "reset_lead cur_time s =
     s\<lparr>last_fcw_a := Num 0, v_lead_max := 0, lead_seen_t := cur_time,
       last_fcw_time := 0, last_min_a := Num 0, counters := []\<rparr>"

definition fcw_init :: FCWChecker where
  "fcw_init = \<lparr>last_fcw_a = Num 0, v_lead_max = 0, lead_seen_t = 0,
     last_fcw_time = 0, last_min_a = Num 0, counters = []\<rparr>"

text \<open>The arguments of one call of \<^verbatim>\<open>FCWChecker.update\<close>.\<close>

record fcw_args =
  arg_mpc_solution_a :: "pyfloat list"
  arg_cur_time :: real
  arg_v_ego :: real
  arg_a_ego :: real
  arg_x_lead :: real
  arg_v_lead :: real
  arg_a_lead :: real
  arg_y_lead :: real
  arg_vlat_lead :: real
  arg_fcw_lead :: real
  arg_blinkers :: bool

text \<open>
  A counter goes up by one while its condition holds and back to 0 otherwise
  (\<^verbatim>\<open>c[k] = c[k] + 1 if cond else 0\<close>).
\<close>

definition count_if :: "string \<Rightarrow> real \<Rightarrow> bool \<Rightarrow> (string \<times> real) list \<Rightarrow> (string \<times> real) list" where
  "count_if k step cond cs = AList.update k (if cond then counter_get cs k + step else 0) cs"

definition update_counters :: "fcw_args \<Rightarrow> pyfloat \<Rightarrow> real \<Rightarrow> (string \<times> real) list \<Rightarrow> (string \<times> real) list" where
  "update_counters a ttc vmax cs0 =
     (let cs1 = count_if ''v_ego'' 1 (arg_v_ego a > 5.0) cs0;
          cs2 = count_if ''ttc'' 1 (fl_lt ttc (Num 2.5)) cs1;
          cs3 = count_if ''v_lead_max'' 1 (vmax > 2.5) cs2;
          cs4 = count_if ''v_ego_lead'' 1 (arg_v_ego a > arg_v_lead a) cs3;
          cs5 = AList.update ''lead_seen'' (counter_get cs4 ''lead_seen'' + 0.33) cs4;
          cs6 = count_if ''y_lead'' 1 (\<bar>arg_y_lead a\<bar> < 1.0) cs5;
          cs7 = count_if ''vlat_lead'' 1 (\<bar>arg_vlat_lead a\<bar> < 0.4) cs6;
          cs8 = count_if ''blinkers'' (10.0 / (20 * 3.0)) (\<not> arg_blinkers a) cs7
      in cs8)"

definition FCWChecker_update :: "FCWChecker \<Rightarrow> fcw_args \<Rightarrow> error + (bool \<times> FCWChecker)" where
  "FCWChecker_update s a =
     bindE (py_min (arg_mpc_solution_a a)) (\<lambda>min_a.
       (let s1 = s\<lparr>last_min_a := min_a, v_lead_max := max (v_lead_max s) (arg_v_lead a)\<rparr>
        in if arg_fcw_lead a > 0.99 then
             bindE (calc_ttc (Num (arg_v_ego a)) (Num (arg_a_ego a)) (Num (arg_x_lead a))
                      (Num (arg_v_lead a)) (Num (arg_a_lead a))) (\<lambda>ttc.
             (let s2 = s1\<lparr>counters := update_counters a ttc (v_lead_max s1) (counters s1)\<rparr>;
                  a_thr = interp (arg_v_lead a) FCW_A_ACT_BP FCW_A_ACT_V
              in bindE (py_min (take 15 (arg_mpc_solution_a a))) (\<lambda>min15.
                   (let a_delta = fl_sub min15 (Num (min 0.0 (arg_a_ego a)));
                        fcw_allowed = list_all (\<lambda>kc. snd kc \<ge> 10) (counters s2)
                    in if (fl_lt (last_min_a s2) (Num (- 3.0)) \<or> fl_lt a_delta (Num a_thr))
                          \<and> fcw_allowed \<and> last_fcw_time s2 + 5.0 < arg_cur_time a
                       then Inr (True, s2\<lparr>last_fcw_time := arg_cur_time a,
                                           last_fcw_a := last_min_a s2\<rparr>)
                       else Inr (False, s2)))))
           else Inr (False, s1)))"

text \<open>
  A trace of calls: each call runs on the state the previous one left. An exception
  leaves \<^verbatim>\<open>update\<close> and ends the trace.
\<close>

fun fcw_run :: "FCWChecker \<Rightarrow> fcw_args list \<Rightarrow> bool list" where
  "fcw_run s [] = []"
| "fcw_run s (a # as) =
     (case FCWChecker_update s a of
        Inl e \<Rightarrow> []
      | Inr (r, s') \<Rightarrow> r # fcw_run s' as)"

subsection \<open>Messages read by the planner\<close>

text \<open>The car state \<^verbatim>\<open>CS\<close>, with the fields the planner reads.\<close>

record car_state =
  vEgo :: real
  aEgo :: real
  steeringAngle :: real
  brakePressed :: bool
  leftBlinker :: bool
  rightBlinker :: bool
  readdistancelines :: int

text \<open>A radar lead track (\<^verbatim>\<open>leadOne\<close>, \<^verbatim>\<open>leadTwo\<close> of a \<^verbatim>\<open>live20\<close> message).\<close>

record lead =
  status :: bool
  dRel :: real
  vLead :: real
  vLeadK :: real
  aLeadK :: real
  aLeadTau :: real
  vRel :: real
  yRel :: real
  vLat :: real
  lead_fcw :: real

subsection \<open>The external MPC solver\<close>

text \<open>
  \<^verbatim>\<open>state_t\<close> and \<^verbatim>\<open>log_t\<close> are the two C structures shared with the solver. The
  trajectories of \<^verbatim>\<open>log_t\<close> are C arrays of 21 nodes; they are lists here, and an
  access the source makes beyond the end of a list is an \<^verbatim>\<open>IndexError\<close>.
\<close>

record state_t =
  st_x_ego :: pyfloat
  st_v_ego :: pyfloat
  st_a_ego :: pyfloat
  st_x_l :: pyfloat
  st_v_l :: pyfloat

record log_t =
  sol_x_ego :: "pyfloat list"
  sol_v_ego :: "pyfloat list"
  sol_a_ego :: "pyfloat list"
  sol_x_l :: "pyfloat list"
  sol_v_l :: "pyfloat list"
  sol_cost :: pyfloat

text \<open>
  The solver \<^verbatim>\<open>libmpc\<close> is not part of the sources. It is a parameter: an internal
  state of any type \<open>'l\<close> and the three entry points the wrapper calls.
  \<^verbatim>\<open>run_mpc\<close> receives pointers to the current state and to the solution, so it
  may read and write both; it returns the number of iterations. The cost constants
  \<^verbatim>\<open>MPC_COST_LONG\<close> and \<^verbatim>\<open>_LEAD_ACCEL_TAU\<close> come from modules that are not among the
  sources either, and are parameters as well.
\<close>

record 'l libmpc =
  lib_init :: "real \<Rightarrow> real \<Rightarrow> real \<Rightarrow> real \<Rightarrow> 'l \<Rightarrow> 'l"
  lib_init_with_simulation :: "pyfloat \<Rightarrow> real \<Rightarrow> real \<Rightarrow> real \<Rightarrow> real \<Rightarrow> 'l \<Rightarrow> 'l"
  lib_run_mpc :: "state_t \<Rightarrow> log_t \<Rightarrow> real \<Rightarrow> real \<Rightarrow> pyfloat \<Rightarrow> 'l \<Rightarrow> state_t \<times> log_t \<times> int \<times> 'l"
  COST_TTC :: real
  COST_DISTANCE :: real
  COST_ACCELERATION :: real
  COST_JERK :: real
  LEAD_ACCEL_TAU :: real

subsection \<open>\<^verbatim>\<open>LongitudinalMpc\<close>\<close>

record 'l LongitudinalMpc =
  mpc_id :: nat
  solver :: 'l
  mpc_solution :: log_t
  cur_state :: state_t
  a_lead_tau :: real
  v_mpc :: pyfloat
  v_mpc_future :: pyfloat
  a_mpc :: pyfloat
  mpc_v_cruise :: real
  prev_lead_status :: bool
  prev_lead_x :: real
  new_lead :: bool
  lastTR :: int
  last_cloudlog_t :: real
  last_cost :: real
  rel_vel :: real

definition set_cur_state :: "pyfloat \<Rightarrow> pyfloat \<Rightarrow> 'l LongitudinalMpc \<Rightarrow> 'l LongitudinalMpc" where
  "set_cur_state v a s = s\<lparr>cur_state := (cur_state s)\<lparr>st_v_ego := v, st_a_ego := a\<rparr>\<rparr>"

definition get_relative_velocity :: "real \<Rightarrow> 'l LongitudinalMpc \<Rightarrow> 'l LongitudinalMpc" where
  "get_relative_velocity l s = s\<lparr>rel_vel := l\<rparr>"

text \<open>
  The first half of \<^verbatim>\<open>update\<close>: the lead branch. It returns the wrapper and the
  local \<^verbatim>\<open>a_lead\<close>.
\<close>

definition mpc_lead_branch :: "'l libmpc \<Rightarrow> car_state \<Rightarrow> lead option \<Rightarrow> 'l LongitudinalMpc \<Rightarrow> 'l LongitudinalMpc \<times> real" where
  "mpc_lead_branch lib CS ld s =
     (case ld of
        Some l \<Rightarrow>
          if status l then
            (let x_lead = max 0 (dRel l - 1);
                 v_lead0 = max 0.0 (vLead l);
                 a_lead0 = aLeadK l;
                 still = (v_lead0 < 0.1 \<or> - a_lead0 / 2.0 > v_lead0);
                 v_lead = (if still then 0.0 else v_lead0);
                 a_lead = (if still then 0.0 else a_lead0);
                 tau = max (aLeadTau l) ((a_lead\<^sup>2 * pi) / (2 * (v_lead + 0.01)\<^sup>2));
                 s1 = s\<lparr>a_lead_tau := tau, new_lead := False\<rparr>;
                 s2 = (if \<not> prev_lead_status s1 \<or> \<bar>x_lead - prev_lead_x s1\<bar> > 2.5
                       then s1\<lparr>solver := lib_init_with_simulation lib (v_mpc s1) x_lead v_lead a_lead
                                            (a_lead_tau s1) (solver s1),
                               new_lead := True\<rparr>
                       else s1);
                 s3 = s2\<lparr>prev_lead_status := True, prev_lead_x := x_lead,
                         cur_state := (cur_state s2)\<lparr>st_x_l := Num x_lead, st_v_l := Num v_lead\<rparr>\<rparr>
             in (s3, a_lead))
          else
            (s\<lparr>prev_lead_status := False,
               cur_state := (cur_state s)\<lparr>st_x_l := Num 50.0, st_v_l := Num (vEgo CS + 10.0)\<rparr>,
               a_lead_tau := LEAD_ACCEL_TAU lib\<rparr>, 0.0)
      | None \<Rightarrow>
          (s\<lparr>prev_lead_status := False,
             cur_state := (cur_state s)\<lparr>st_x_l := Num 50.0, st_v_l := Num (vEgo CS + 10.0)\<rparr>,
             a_lead_tau := LEAD_ACCEL_TAU lib\<rparr>, 0.0))"

text \<open>
  The choice of the time gap \<^verbatim>\<open>TR\<close> and of the distance cost, by the driver's
  distance setting. It returns the wrapper and \<^verbatim>\<open>TR\<close>. A cost that is NaN fails the
  comparison with the last cost, as every comparison with NaN does.
\<close>

definition mpc_select_TR :: "'l libmpc \<Rightarrow> car_state \<Rightarrow> 'l LongitudinalMpc \<Rightarrow> error + ('l LongitudinalMpc \<times> pyfloat)" where
  "mpc_select_TR lib CS s =
     (if vEgo CS < 2.0 then Inr (s, Num 1.8)
      else if readdistancelines CS = 1 then
        (if readdistancelines CS = lastTR s then Inr (s, Num 0.9)
         else Inr (s\<lparr>solver := lib_init lib (COST_TTC lib) 1.0 (COST_ACCELERATION lib) (COST_JERK lib)
                                (solver s),
                     lastTR := readdistancelines CS\<rparr>, Num 0.9))
      else if readdistancelines CS = 2 then
        bindE (generateTR (Num (rel_vel s)) (Num (vEgo CS))) (\<lambda>generatedTR.
          case generate_cost generatedTR of
            Num cost \<Rightarrow>
              if \<bar>cost - last_cost s\<bar> > 0.2
              then Inr (s\<lparr>solver := lib_init lib (COST_TTC lib) cost
                                       (COST_ACCELERATION lib) (COST_JERK lib) (solver s),
                           last_cost := cost\<rparr>, generatedTR)
              else Inr (s, generatedTR)
          | NaN \<Rightarrow> Inr (s, generatedTR))
      else if readdistancelines CS = 3 then
        (if readdistancelines CS = lastTR s then Inr (s, Num 2.7)
         else Inr (s\<lparr>solver := lib_init lib (COST_TTC lib) 0.05 (COST_ACCELERATION lib) (COST_JERK lib)
                                (solver s),
                     lastTR := readdistancelines CS\<rparr>, Num 2.7))
      else Inr (s, Num 1.8))"

text \<open>
  \<^verbatim>\<open>np.array(xs) - np.array(ys)\<close> on two sequences of the same length; arrays of
  different lengths do not subtract.
\<close>

definition np_sub :: "pyfloat list \<Rightarrow> pyfloat list \<Rightarrow> error + pyfloat list" where
  "np_sub xs ys =
     (if length xs = length ys then Inr (map (\<lambda>p. fl_sub (fst p) (snd p)) (zip xs ys))
      else Inl ValueError)"

text \<open>
  The second half of \<^verbatim>\<open>update\<close>: reading the solution and the reset. \<open>t\<close> is the
  clock read before the solver ran.
\<close>

definition mpc_read_solution :: "'l libmpc \<Rightarrow> car_state \<Rightarrow> real \<Rightarrow> 'l LongitudinalMpc \<Rightarrow> error + 'l LongitudinalMpc" where
  "mpc_read_solution lib CS t s =
     bindE (py_index (sol_v_ego (mpc_solution s)) 1) (\<lambda>v1.
     bindE (py_index (sol_a_ego (mpc_solution s)) 1) (\<lambda>a1.
     bindE (py_index (sol_v_ego (mpc_solution s)) 10) (\<lambda>v10.
       (let s1 = s\<lparr>v_mpc := v1, a_mpc := a1, v_mpc_future := v10\<rparr>
        in bindE (np_sub (sol_x_l (mpc_solution s1)) (sol_x_ego (mpc_solution s1))) (\<lambda>dls.
           bindE (py_min dls) (\<lambda>min_dls.
             (let crashing = fl_lt min_dls (Num (- 50.0));
                  nans = list_ex is_nan (sol_v_ego (mpc_solution s1))
              in bindE (py_min (sol_v_ego (mpc_solution s1))) (\<lambda>min_v.
                   (let backwards = fl_lt min_v (Num (- 0.01))
                    in if ((backwards \<or> crashing) \<and> prev_lead_status s1) \<or> nans then
                         (let s2 = (if t > last_cloudlog_t s1 + 5.0
                                    then s1\<lparr>last_cloudlog_t := t\<rparr> else s1)
                          in Inr (s2\<lparr>solver := lib_init lib (COST_TTC lib) (COST_DISTANCE lib)
                                                  (COST_ACCELERATION lib) (COST_JERK lib) (solver s2),
                                     cur_state := (cur_state s2)\<lparr>st_v_ego := Num (vEgo CS),
                                                                 st_a_ego := Num 0.0\<rparr>,
                                     v_mpc := Num (vEgo CS),
                                     a_mpc := Num (aEgo CS),
                                     prev_lead_status := False\<rparr>))
                       else Inr s1)))))))))"

text \<open>
  \<^verbatim>\<open>LongitudinalMpc.update\<close>. The argument \<^verbatim>\<open>v_cruise_setpoint\<close> is not used by the
  body. Publishing the solution (\<^verbatim>\<open>send_mpc_solution\<close>) and the log line of a reset
  write no field of the wrapper and are left out.
\<close>

definition mpc_update :: "'l libmpc \<Rightarrow> car_state \<Rightarrow> lead option \<Rightarrow> real \<Rightarrow> real \<Rightarrow> 'l LongitudinalMpc \<Rightarrow> error + 'l LongitudinalMpc" where
  "mpc_update lib CS ld v_cruise_setpoint t s =
     (let s0 = s\<lparr>cur_state := (cur_state s)\<lparr>st_x_ego := Num 0.0\<rparr>\<rparr>;
          (s1, a_lead) = mpc_lead_branch lib CS ld s0
      in bindE (mpc_select_TR lib CS s1) (\<lambda>(s2, TR).
           (let (cur, sol, n_its, l) =
                  lib_run_mpc lib (cur_state s2) (mpc_solution s2) (a_lead_tau s2) a_lead TR (solver s2);
                s3 = s2\<lparr>cur_state := cur, mpc_solution := sol, solver := l\<rparr>
            in mpc_read_solution lib CS t s3)))"

subsection \<open>Cruise acceleration limits\<close>

definition A_CRUISE_MIN_V :: "real list" where
  "A_CRUISE_MIN_V = [- 1.0, - 0.8, - 0.67, - 0.5, - 0.30]"

definition A_CRUISE_MIN_BP :: "real list" where
  "A_CRUISE_MIN_BP = [0, 5, 10, 20, 40]"

definition A_CRUISE_MAX_V :: "real list" where
  "A_CRUISE_MAX_V = [1.1, 1.1, 0.8, 0.5, 0.3]"

definition A_CRUISE_MAX_V_FOLLOWING :: "real list" where
  "A_CRUISE_MAX_V_FOLLOWING = [1.6, 1.6, 1.2, 0.7, 0.3]"

definition A_CRUISE_MAX_BP :: "real list" where
  "A_CRUISE_MAX_BP = [0, 5, 10, 20, 40]"

definition A_TOTAL_MAX_V :: "real list" where
  "A_TOTAL_MAX_V = [3.0, 3.5, 4.0]"

definition A_TOTAL_MAX_BP :: "real list" where
  "A_TOTAL_MAX_BP = [0, 25, 40]"

text \<open>The pair is (\<^verbatim>\<open>a_cruise_min\<close>, \<^verbatim>\<open>a_cruise_max\<close>), entries 0 and 1 of the result.\<close>

definition calc_cruise_accel_limits :: "real \<Rightarrow> bool \<Rightarrow> real \<times> real" where
  "calc_cruise_accel_limits v following =
     (let a_cruise_min = interp v A_CRUISE_MIN_BP A_CRUISE_MIN_V;
          a_cruise_max = (if following then interp v A_CRUISE_MAX_BP A_CRUISE_MAX_V_FOLLOWING
                          else interp v A_CRUISE_MAX_BP A_CRUISE_MAX_V)
      in (a_cruise_min, a_cruise_max))"

record car_params =
  steerRatio :: real
  wheelbase :: real
  startAccel :: real

text \<open>
  \<^verbatim>\<open>limit_accel_in_turns\<close>; \<open>deg_to_rad\<close> is \<^verbatim>\<open>CV.DEG_TO_RAD\<close>. The division raises
  when the product of steering ratio and wheelbase is zero.
\<close>

definition limit_accel_in_turns ::
  "real \<Rightarrow> real \<Rightarrow> real \<Rightarrow> real \<times> real \<Rightarrow> car_params \<Rightarrow> real \<Rightarrow> error + real \<times> real" where
  "limit_accel_in_turns deg_to_rad v angle_steers a_target cp angle_later =
     (let a_total_max = interp v A_TOTAL_MAX_BP A_TOTAL_MAX_V
      in if steerRatio cp * wheelbase cp = 0 then Inl ZeroDivisionError
         else
           (let a_y = v\<^sup>2 * \<bar>angle_steers\<bar> * deg_to_rad / (steerRatio cp * wheelbase cp);
                a_y2 = v\<^sup>2 * \<bar>angle_later\<bar> * deg_to_rad / (steerRatio cp * wheelbase cp);
                a_x_allowed = a_total_max - a_y;
                a_x_allowed2 = a_total_max - a_y2;
                a1 = min (min (snd a_target) a_x_allowed) a_x_allowed2;
                a0 = min (fst a_target) a1
            in Inr (a0, a1)))"

subsection \<open>The planner's inputs and its plan message\<close>

typedecl model_data

record model_msg =
  md_logMonoTime :: nat
  md_model :: model_data

record live20 =
  l20_logMonoTime :: nat
  leadOne :: lead
  leadTwo :: lead
  radarErrors :: "string list"

record gps_plan =
  gps_valid :: bool
  gps_poly :: "real list"

record live_map_data =
  mapValid :: bool
  speedLimitValid :: bool
  speedLimit :: real
  curvatureValid :: bool
  curvature :: real
  distToTurn :: real

record lat_control =
  anglelater :: real

text \<open>One message taken from a socket by the poll loop.\<close>

datatype message =
    Model model_msg
  | Live20 live20
  | GpsPlannerPlan gps_plan
  | LiveMapData live_map_data
  | LatControl lat_control

text \<open>The lateral controller \<^verbatim>\<open>LaC\<close> and the longitudinal controller \<^verbatim>\<open>LoC\<close>.\<close>

record lat_controller =
  lac_cost :: pyfloat
  mpc_nans :: bool

datatype LongCtrlState = off | pid | stopping | starting

record PathPlanner =
  d_poly :: "real list"
  p_poly :: "real list"
  c_poly :: "real list"
  l_poly :: "real list"
  r_poly :: "real list"
  l_prob :: real
  r_prob :: real
  c_prob :: real
  lane_width :: real

datatype EventType = NO_ENTRY | SOFT_DISABLE | IMMEDIATE_DISABLE

record plan =
  events :: "(string \<times> EventType list) list"
  mdMonoTime :: nat
  l20MonoTime :: nat
  lateralValid :: bool
  dPoly :: "real list"
  laneWidth :: real
  longitudinalValid :: bool
  vCruise :: pyfloat
  aCruise :: pyfloat
  vTarget :: pyfloat
  aTarget :: pyfloat
  vTargetFuture :: pyfloat
  hasLead :: bool
  hasLeftLane :: bool
  hasrightLaneDepart :: bool
  hasRightLane :: bool
  hasleftLaneDepart :: bool
  plan_longitudinalPlanSource :: string
  gpsPlannerActive :: bool
  vCurvature :: real
  decelForTurn :: bool
  plan_mapValid :: bool
  plan_fcw :: bool

text \<open>
  What the planner uses and the sources do not hold, beside the solver: the unit
  conversions of \<^verbatim>\<open>selfdrive.config\<close>, \<^verbatim>\<open>MIN_CAN_SPEED\<close>, the speed smoother, the path
  planner's update, the parameter store with Python's \<^verbatim>\<open>float\<close> on its strings
  (\<open>None\<close> where \<^verbatim>\<open>float\<close> raises), and the order in which a dictionary yields its
  keys: by a rank of the key, keys of equal rank in the order of insertion.
\<close>

record 'l planner_env = "'l libmpc" +
  KPH_TO_MS :: real
  DEG_TO_RAD :: real
  MIN_CAN_SPEED :: real
  speed_smoother :: "pyfloat \<Rightarrow> pyfloat \<Rightarrow> pyfloat \<Rightarrow> pyfloat \<Rightarrow> pyfloat \<Rightarrow> pyfloat \<Rightarrow> pyfloat \<Rightarrow> pyfloat
                     \<Rightarrow> pyfloat \<times> pyfloat"
  pp_update :: "real \<Rightarrow> model_msg \<Rightarrow> lat_controller \<Rightarrow> PathPlanner \<Rightarrow> PathPlanner"
  params_get :: "string \<Rightarrow> string option"
  py_float :: "string \<Rightarrow> real option"
  key_rank :: "string \<Rightarrow> nat"

subsection \<open>\<^verbatim>\<open>Planner\<close>\<close>

record 'l Planner =
  CP :: car_params
  last_md_ts :: nat
  last_l20_ts :: nat
  last_model :: real
  last_l20 :: real
  model_dead :: bool
  radar_dead :: bool
  radar_errors :: "string list"
  PP :: PathPlanner
  mpc1 :: "'l LongitudinalMpc"
  mpc2 :: "'l LongitudinalMpc"
  v_acc_start :: pyfloat
  a_acc_start :: pyfloat
  acc_start_time :: real
  v_acc :: pyfloat
  v_acc_sol :: pyfloat
  v_acc_future :: pyfloat
  a_acc :: pyfloat
  a_acc_sol :: pyfloat
  v_cruise :: pyfloat
  a_cruise :: pyfloat
  lead_1 :: "lead option"
  lead_2 :: "lead option"
  longitudinalPlanSource :: string
  fcw :: bool
  fcw_checker :: FCWChecker
  fcw_enabled :: bool
  last_gps_planner_plan :: "gps_plan option"
  gps_planner_active :: bool
  last_live_map_data :: "live_map_data option"
  lastlat_Control :: "lat_control option"
  perception_state :: live20
  v_curvature :: real
  v_speedlimit :: real
  decel_for_turn :: bool
  map_valid :: bool

subsubsection \<open>\<^verbatim>\<open>choose_solution\<close>\<close>

text \<open>
  A dictionary is an association list in the order of insertion; iterating it yields
  the keys by rank. \<^verbatim>\<open>min(d, key=d.get)\<close> keeps the first key and replaces it by a
  later one whose value compares strictly below.
\<close>

definition dict_items :: "(string \<Rightarrow> nat) \<Rightarrow> (string \<times> pyfloat) list \<Rightarrow> (string \<times> pyfloat) list" where
  "dict_items rank d = sort_key (\<lambda>kv. rank (fst kv)) d"

definition min_step :: "string \<times> pyfloat \<Rightarrow> string \<times> pyfloat \<Rightarrow> string \<times> pyfloat" where
  "min_step cur kv = (if fl_lt (snd kv) (snd cur) then kv else cur)"

fun py_min_key :: "(string \<times> pyfloat) list \<Rightarrow> error + string" where
  "py_min_key [] = Inl ValueError"
| "py_min_key (kv # kvs) = Inr (fst (foldl min_step kv kvs))"

definition solutions_of :: "'l Planner \<Rightarrow> (string \<times> pyfloat) list" where
  "solutions_of s =
     [(''cruise'', v_cruise s)]
     @ (if prev_lead_status (mpc1 s) then [(''mpc1'', v_mpc (mpc1 s))] else [])
     @ (if prev_lead_status (mpc2 s) then [(''mpc2'', v_mpc (mpc2 s))] else [])"

definition choose_solution :: "(string \<Rightarrow> nat) \<Rightarrow> real \<Rightarrow> bool \<Rightarrow> 'l Planner \<Rightarrow> error + 'l Planner" where
  "choose_solution rank v_cruise_setpoint enabled s =
     bindE
       (if enabled then
          bindE (py_min_key (dict_items rank (solutions_of s))) (\<lambda>slowest.
            (let s1 = s\<lparr>longitudinalPlanSource := slowest\<rparr>
             in if slowest = ''mpc1'' then
                  Inr (s1\<lparr>v_acc := v_mpc (mpc1 s1), a_acc := a_mpc (mpc1 s1)\<rparr>)
                else if slowest = ''mpc2'' then
                  Inr (s1\<lparr>v_acc := v_mpc (mpc2 s1), a_acc := a_mpc (mpc2 s1)\<rparr>)
                else if slowest = ''cruise'' then
                  Inr (s1\<lparr>v_acc := v_cruise s1, a_acc := a_cruise s1\<rparr>)
                else Inr s1))
        else Inr s)
       (\<lambda>s2. Inr (s2\<lparr>v_acc_future :=
                       foldl py_min2 (v_mpc_future (mpc1 s2))
                         [v_mpc_future (mpc2 s2), Num v_cruise_setpoint]\<rparr>))"

subsubsection \<open>The poll loop and the model message\<close>

text \<open>
  The loop over the polled sockets: a model, radar or GPS message is kept in a local
  variable, map data and the lateral hint are stored in the planner at once.
\<close>

fun poll_loop ::
  "message list \<Rightarrow> model_msg option \<times> live20 option \<times> gps_plan option \<times> 'l Planner
     \<Rightarrow> model_msg option \<times> live20 option \<times> gps_plan option \<times> 'l Planner" where
  "poll_loop [] acc = acc"
| "poll_loop (Model m # ms) (md, l20, gps, s) = poll_loop ms (Some m, l20, gps, s)"
| "poll_loop (Live20 m # ms) (md, l20, gps, s) = poll_loop ms (md, Some m, gps, s)"
| "poll_loop (GpsPlannerPlan m # ms) (md, l20, gps, s) = poll_loop ms (md, l20, Some m, s)"
| "poll_loop (LiveMapData m # ms) (md, l20, gps, s) =
     poll_loop ms (md, l20, gps, s\<lparr>last_live_map_data := Some m\<rparr>)"
| "poll_loop (LatControl m # ms) (md, l20, gps, s) =
     poll_loop ms (md, l20, gps, s\<lparr>lastlat_Control := Some m\<rparr>)"

definition on_model ::
  "'l planner_env \<Rightarrow> car_state \<Rightarrow> lat_controller \<Rightarrow> real \<Rightarrow> model_msg \<Rightarrow> 'l Planner \<Rightarrow> 'l Planner" where
  "on_model env CS LaC cur_time md s =
     (let s1 = s\<lparr>last_md_ts := md_logMonoTime md, last_model := cur_time, model_dead := False,
                  PP := pp_update env (vEgo CS) md LaC (PP s)\<rparr>
      in case last_gps_planner_plan s1 of
           None \<Rightarrow> s1
         | Some gp \<Rightarrow>
             (let s2 = s1\<lparr>gps_planner_active := gps_valid gp\<rparr>
              in if gps_valid gp then
                   s2\<lparr>PP := (PP s2)\<lparr>d_poly := gps_poly gp, p_poly := gps_poly gp,
                                    c_poly := gps_poly gp, l_prob := 0.0, r_prob := 0.0,
                                    c_prob := 1.0\<rparr>\<rparr>
                 else s2))"

subsubsection \<open>Latching the relative velocity\<close>

text \<open>
  The planner calls \<^verbatim>\<open>get_relative_velocity\<close> through the class,
  \<^verbatim>\<open>LongitudinalMpc.get_relative_velocity(x)\<close>, not through \<^verbatim>\<open>self.mpc1\<close> or
  \<^verbatim>\<open>self.mpc2\<close>. A method taken from its class is not bound to an instance: the
  arguments of the call must supply \<^verbatim>\<open>self\<close> as well. The call goes through only
  with an instance followed by the value; any other argument list raises
  \<^verbatim>\<open>TypeError\<close> before the body runs.
\<close>

datatype mpc_ref = Mpc1 | Mpc2

datatype pyarg = Instance mpc_ref | FloatArg real

fun call_get_relative_velocity :: "pyarg list \<Rightarrow> 'l Planner \<Rightarrow> error + 'l Planner" where
  "call_get_relative_velocity [Instance Mpc1, FloatArg l] s =
     Inr (s\<lparr>mpc1 := get_relative_velocity l (mpc1 s)\<rparr>)"
| "call_get_relative_velocity [Instance Mpc2, FloatArg l] s =
     Inr (s\<lparr>mpc2 := get_relative_velocity l (mpc2 s)\<rparr>)"
| "call_get_relative_velocity _ s = Inl TypeError"

text \<open>
  The \<^verbatim>\<open>try\<close> statement: the handler catches every exception of the first call,
  also the \<^verbatim>\<open>AttributeError\<close> of a missing lead, and makes the call again with 0.
  An exception of the handler's own call leaves \<^verbatim>\<open>update\<close>.
\<close>

definition latch_rel_vel :: "'l Planner \<Rightarrow> error + 'l Planner" where
  "latch_rel_vel s =
     (case (case lead_1 s of
              None \<Rightarrow> Inl AttributeError
            | Some l \<Rightarrow> call_get_relative_velocity [FloatArg (vRel l)] s) of
        Inr s' \<Rightarrow> Inr s'
      | Inl e \<Rightarrow> call_get_relative_velocity [FloatArg 0.0] s)"

subsubsection \<open>Speed limit and curvature from the map\<close>

definition map_limits :: "'l planner_env \<Rightarrow> 'l Planner \<Rightarrow> error + 'l Planner" where
  "map_limits env s =
     (case last_live_map_data s of
        None \<Rightarrow> Inr s
      | Some m \<Rightarrow>
          (let s1 = s\<lparr>v_speedlimit := NO_CURVATURE_SPEED, v_curvature := NO_CURVATURE_SPEED,
                       map_valid := mapValid m\<rparr>
           in if speedLimitValid m then
                (let speed_limit = speedLimit m;
                     set_speed_limit_active =
                       (params_get env ''LimitSetSpeed'' = Some ''1''
                        \<and> params_get env ''SpeedLimitOffset'' \<noteq> None)
                 in if set_speed_limit_active then
                      bindE (case params_get env ''SpeedLimitOffset'' of
                               None \<Rightarrow> Inl TypeError
                             | Some str \<Rightarrow>
                                 (case py_float env str of
                                    None \<Rightarrow> Inl ValueError
                                  | Some x \<Rightarrow> Inr x)) (\<lambda>offset.
                        (let s2 = s1\<lparr>v_speedlimit := speed_limit + offset\<rparr>
                         in if curvatureValid m then
                              (let curv = \<bar>curvature m\<bar>;
                                   v_curv = sqrt (A_Y_MAX / max 0.0001 curv)
                               in Inr (s2\<lparr>v_curvature := min NO_CURVATURE_SPEED v_curv\<rparr>))
                            else Inr s2))
                    else Inr s1)
              else Inr s1))"

subsubsection \<open>The cruise speed\<close>

text \<open>
  The branch \<^verbatim>\<open>if enabled\<close> of the radar block: the acceleration and jerk limits
  and the call of the speed smoother. \<open>setpoint\<close> is the effective
  \<^verbatim>\<open>v_cruise_setpoint\<close>.
\<close>

definition cruise_enabled ::
  "'l planner_env \<Rightarrow> car_state \<Rightarrow> bool \<Rightarrow> bool \<Rightarrow> real \<Rightarrow> 'l Planner \<Rightarrow> error + 'l Planner" where
  "cruise_enabled env CS following force_slow_decel setpoint s =
     (let accel_limits = calc_cruise_accel_limits (vEgo CS) following;
          jerk_limits = (min (- 0.1) (fst accel_limits), max 0.1 (snd accel_limits));
          angle_later = (case lastlat_Control s of
                           Some lc \<Rightarrow> if vEgo CS > 11 then anglelater lc else 0
                         | None \<Rightarrow> 0)
      in bindE (limit_accel_in_turns (DEG_TO_RAD env) (vEgo CS) (steeringAngle CS) accel_limits (CP s)
                  (angle_later * steerRatio (CP s))) (\<lambda>lim.
           (let lim1 = (if force_slow_decel
                        then (let a1 = min (snd lim) AWARENESS_DECEL in (min (fst lim) a1, a1))
                        else lim)
            in bindE
                 (if decel_for_turn s then
                    (case last_live_map_data s of
                       None \<Rightarrow> Inl AttributeError
                     | Some m \<Rightarrow>
                         bindE (fl_div (Num (distToTurn m)) (py_max2 (v_cruise s) (Num 1.0))) (\<lambda>q.
                           (let time_to_turn = py_max2 (Num 1.0) q
                            in bindE (fl_div (fl_sub (Num (v_curvature s)) (v_cruise s)) time_to_turn)
                                 (\<lambda>d.
                                   (let required_decel = py_min2 (Num 0) d
                                    in Inr (py_max2 (Num (fst lim1)) required_decel))))))
                  else Inr (Num (fst lim1))) (\<lambda>a_min.
                 (let (v, a) = speed_smoother env (v_acc_start s) (a_acc_start s) (Num setpoint)
                                 (Num (snd lim1)) a_min
                                 (Num (snd jerk_limits)) (Num (fst jerk_limits)) (Num DT_MPC)
                  in Inr (s\<lparr>v_cruise := py_max2 v (Num 0.0), a_cruise := a\<rparr>))))))"

text \<open>The branch \<^verbatim>\<open>else\<close>: every longitudinal target is reset.\<close>

definition cruise_disabled ::
  "'l planner_env \<Rightarrow> car_state \<Rightarrow> LongCtrlState \<Rightarrow> 'l Planner \<Rightarrow> 'l Planner" where
  "cruise_disabled env CS long_control_state s =
     (let is_starting = (long_control_state = starting);
          a_ego = min (aEgo CS) 0.0;
          reset_speed = Num (if is_starting then MIN_CAN_SPEED env else vEgo CS);
          reset_accel = Num (if is_starting then startAccel (CP s) else a_ego)
      in s\<lparr>v_acc := reset_speed, a_acc := reset_accel,
           v_acc_start := reset_speed, a_acc_start := reset_accel,
           v_cruise := reset_speed, a_cruise := reset_accel,
           v_acc_sol := reset_speed, a_acc_sol := reset_accel\<rparr>)"

subsubsection \<open>The radar block of \<^verbatim>\<open>update\<close>\<close>

text \<open>
  What follows the latch, from the computation of \<^verbatim>\<open>enabled\<close> to the collision
  warning. \<open>t1\<close> and \<open>t2\<close> are the clock readings inside the two solver wrappers,
  \<open>l1\<close> is \<^verbatim>\<open>self.lead_1\<close>, the lead the block has just latched.
\<close>

definition radar_plan ::
  "'l planner_env \<Rightarrow> car_state \<Rightarrow> LongCtrlState \<Rightarrow> real \<Rightarrow> bool \<Rightarrow> real \<Rightarrow> real \<Rightarrow> real
     \<Rightarrow> lead \<Rightarrow> 'l Planner \<Rightarrow> error + 'l Planner" where
  "radar_plan env CS long_control_state v_cruise_setpoint0 force_slow_decel cur_time t1 t2 l1 s =
     (let enabled = (long_control_state = pid \<or> long_control_state = stopping);
          following = (status l1 \<and> dRel l1 < 45.0 \<and> vLeadK l1 > vEgo CS \<and> aLeadK l1 > 0.0)
      in bindE (map_limits env s) (\<lambda>s1.
           (let s2 = s1\<lparr>decel_for_turn :=
                          (v_curvature s1 < Min {v_cruise_setpoint0, v_speedlimit s1, vEgo CS + 1})\<rparr>;
                v_cruise_setpoint = Min {v_cruise_setpoint0, v_curvature s2, v_speedlimit s2}
            in bindE (if enabled
                      then cruise_enabled env CS following force_slow_decel v_cruise_setpoint s2
                      else Inr (cruise_disabled env CS long_control_state s2)) (\<lambda>s3.
                 (let s4 = s3\<lparr>mpc1 := set_cur_state (v_acc_start s3) (a_acc_start s3) (mpc1 s3)\<rparr>;
                      s5 = s4\<lparr>mpc2 := set_cur_state (v_acc_start s4) (a_acc_start s4) (mpc2 s4)\<rparr>
                  in bindE (mpc_update (libmpc.truncate env) CS (lead_1 s5) v_cruise_setpoint t1 (mpc1 s5))
                       (\<lambda>m1.
                     bindE (mpc_update (libmpc.truncate env) CS (lead_2 s5) v_cruise_setpoint t2 (mpc2 s5))
                       (\<lambda>m2.
                     bindE (choose_solution (key_rank env) v_cruise_setpoint enabled
                              (s5\<lparr>mpc1 := m1, mpc2 := m2\<rparr>)) (\<lambda>s6.
                       (let s7 = (if new_lead (mpc1 s6)
                                  then s6\<lparr>fcw_checker := reset_lead cur_time (fcw_checker s6)\<rparr>
                                  else s6);
                            blinkers = (leftBlinker CS \<or> rightBlinker CS)
                        in bindE (FCWChecker_update (fcw_checker s7)
                                    \<lparr>arg_mpc_solution_a = sol_a_ego (mpc_solution (mpc1 s7)),
                                     arg_cur_time = cur_time,
                                     arg_v_ego = vEgo CS, arg_a_ego = aEgo CS,
                                     arg_x_lead = dRel l1, arg_v_lead = vLead l1,
                                     arg_a_lead = aLeadK l1, arg_y_lead = yRel l1,
                                     arg_vlat_lead = vLat l1, arg_fcw_lead = lead_fcw l1,
                                     arg_blinkers = blinkers\<rparr>) (\<lambda>(r, chk).
                             Inr (s7\<lparr>fcw_checker := chk,
                                     fcw := (r \<and> \<not> brakePressed CS)\<rparr>)))))))))))"

text \<open>
  The whole block \<^verbatim>\<open>if l20 is not None\<close>: the message is latched, then the relative
  velocity, then the rest.
\<close>

definition on_radar ::
  "'l planner_env \<Rightarrow> car_state \<Rightarrow> LongCtrlState \<Rightarrow> real \<Rightarrow> bool \<Rightarrow> real \<Rightarrow> real \<Rightarrow> real
     \<Rightarrow> live20 \<Rightarrow> 'l Planner \<Rightarrow> error + 'l Planner" where
  "on_radar env CS long_control_state v_cruise_setpoint force_slow_decel cur_time t1 t2 l20 s =
     (let s1 = s\<lparr>perception_state := l20, last_l20_ts := l20_logMonoTime l20,
                  last_l20 := cur_time, radar_dead := False, radar_errors := radarErrors l20,
                  v_acc_start := v_acc_sol s, a_acc_start := a_acc_sol s,
                  acc_start_time := cur_time,
                  lead_1 := Some (leadOne l20), lead_2 := Some (leadTwo l20)\<rparr>
      in bindE (latch_rel_vel s1) (\<lambda>s2.
           radar_plan env CS long_control_state v_cruise_setpoint force_slow_decel cur_time t1 t2
             (leadOne l20) s2))"

subsubsection \<open>Sending the plan\<close>

definition plan_events :: "lat_controller \<Rightarrow> 'l Planner \<Rightarrow> (string \<times> EventType list) list" where
  "plan_events LaC s =
     (if model_dead s then [(''modelCommIssue'', [NO_ENTRY, IMMEDIATE_DISABLE])] else [])
     @ (if radar_dead s \<or> ''commIssue'' \<in> set (radar_errors s)
        then [(''radarCommIssue'', [NO_ENTRY, SOFT_DISABLE])] else [])
     @ (if ''fault'' \<in> set (radar_errors s)
        then [(''radarFault'', [NO_ENTRY, SOFT_DISABLE])] else [])
     @ (if fl_gt (lac_cost LaC) (Num 10000) \<or> mpc_nans LaC
        then [(''plannerError'', [NO_ENTRY, IMMEDIATE_DISABLE])] else [])"

definition send_plan ::
  "car_state \<Rightarrow> lat_controller \<Rightarrow> LongCtrlState \<Rightarrow> real \<Rightarrow> 'l Planner \<Rightarrow> error + ('l Planner \<times> plan)" where
  "send_plan CS LaC long_control_state cur_time s =
     (let s1 = (if cur_time - last_model s > 0.5 then s\<lparr>model_dead := True\<rparr> else s);
          s2 = (if cur_time - last_l20 s1 > 0.5 then s1\<lparr>radar_dead := True\<rparr> else s1);
          evs = plan_events LaC s2;
          dt = min (cur_time - acc_start_time s2) (DT_MPC + DT) + DT;
          s3 = s2\<lparr>a_acc_sol := fl_add (a_acc_start s2)
                                (fl_mul (Num (dt / DT_MPC)) (fl_sub (a_acc s2) (a_acc_start s2)))\<rparr>
      in bindE (fl_div (fl_mul (Num dt) (fl_add (a_acc_sol s3) (a_acc_start s3))) (Num 2.0)) (\<lambda>h.
           (let s4 = s3\<lparr>v_acc_sol := fl_add (v_acc_start s3) h\<rparr>
            in bindE (py_index (r_poly (PP s4)) 3) (\<lambda>r3.
               bindE (py_index (l_poly (PP s4)) 3) (\<lambda>l3.
                 Inr (s4,
                   \<lparr>events = evs,
                    mdMonoTime = last_md_ts s4,
                    l20MonoTime = last_l20_ts s4,
                    lateralValid = (\<not> model_dead s4),
                    dPoly = d_poly (PP s4),
                    laneWidth = lane_width (PP s4),
                    longitudinalValid = (\<not> radar_dead s4),
                    vCruise = v_cruise s4,
                    aCruise = a_cruise s4,
                    vTarget = v_acc_sol s4,
                    aTarget = a_acc_sol s4,
                    vTargetFuture = v_acc_future s4,
                    hasLead = prev_lead_status (mpc1 s4),
                    hasLeftLane = (l_prob (PP s4) > 0.5),
                    hasrightLaneDepart = (r3 > - 1.15 \<and> \<not> rightBlinker CS),
                    hasRightLane = (r_prob (PP s4) > 0.5),
                    hasleftLaneDepart = (l3 < 1.15 \<and> \<not> leftBlinker CS),
                    plan_longitudinalPlanSource = longitudinalPlanSource s4,
                    gpsPlannerActive = gps_planner_active s4,
                    vCurvature = v_curvature s4,
                    decelForTurn = decel_for_turn s4,
                    plan_mapValid = map_valid s4,
                    plan_fcw = (fcw s4 \<and> (fcw_enabled s4 \<or> long_control_state \<noteq> off))\<rparr>))))))"

subsubsection \<open>\<^verbatim>\<open>Planner.update\<close>\<close>

text \<open>
  One tick. \<open>msgs\<close> are the messages the poll finds, \<open>cur_time\<close>, \<open>t1\<close> and \<open>t2\<close>
  the clock readings of the planner and of the two solver wrappers. The arguments
  \<^verbatim>\<open>CP\<close> and \<^verbatim>\<open>VM\<close> of the source are not used by its body. The result is the
  planner after the tick with the plan it has sent, or the exception that left
  \<^verbatim>\<open>update\<close>, in which case no plan was sent.
\<close>

definition Planner_update ::
  "'l planner_env \<Rightarrow> car_state \<Rightarrow> lat_controller \<Rightarrow> LongCtrlState \<Rightarrow> real \<Rightarrow> bool
     \<Rightarrow> real \<Rightarrow> real \<Rightarrow> real \<Rightarrow> message list \<Rightarrow> 'l Planner \<Rightarrow> error + ('l Planner \<times> plan)" where
  "Planner_update env CS LaC long_control_state v_cruise_kph force_slow_decel cur_time t1 t2 msgs s =
     (let v_cruise_setpoint = v_cruise_kph * KPH_TO_MS env;
          (md, l20, gps_planner_plan, s0) = poll_loop msgs (None, None, None, s);
          s1 = (case gps_planner_plan of
                  None \<Rightarrow> s0
                | Some g \<Rightarrow> s0\<lparr>last_gps_planner_plan := Some g\<rparr>);
          s2 = (case md of
                  None \<Rightarrow> s1
                | Some m \<Rightarrow> on_model env CS LaC cur_time m s1)
      in bindE (case l20 of
                  None \<Rightarrow> Inr s2
                | Some r \<Rightarrow> on_radar env CS long_control_state v_cruise_setpoint force_slow_decel
                             cur_time t1 t2 r s2) (\<lambda>s3.
           send_plan CS LaC long_control_state cur_time s3))"

subsection \<open>Construction\<close>

text \<open>
  \<^verbatim>\<open>LongitudinalMpc.__init__\<close> with \<^verbatim>\<open>setup_mpc\<close>. \<open>l\<close> is the state of the solver
  library as loaded; the two C structures are allocated zeroed, with 21 nodes.
\<close>

definition log_t_zero :: log_t where
  "log_t_zero = \<lparr>sol_x_ego = replicate 21 (Num 0), sol_v_ego = replicate 21 (Num 0),
     sol_a_ego = replicate 21 (Num 0), sol_x_l = replicate 21 (Num 0),
     sol_v_l = replicate 21 (Num 0), sol_cost = Num 0\<rparr>"

definition LongitudinalMpc_init :: "'l libmpc \<Rightarrow> nat \<Rightarrow> 'l \<Rightarrow> 'l LongitudinalMpc" where
  "LongitudinalMpc_init lib i l =
     \<lparr>mpc_id = i,
      solver = lib_init lib (COST_TTC lib) (COST_DISTANCE lib) (COST_ACCELERATION lib) (COST_JERK lib) l,
      mpc_solution = log_t_zero,
      cur_state = \<lparr>st_x_ego = Num 0, st_v_ego = Num 0, st_a_ego = Num 0, st_x_l = Num 0,
                    st_v_l = Num 0\<rparr>,
      a_lead_tau = LEAD_ACCEL_TAU lib,
      v_mpc = Num 0.0, v_mpc_future = Num 0.0, a_mpc = Num 0.0, mpc_v_cruise = 0.0,
      prev_lead_status = False, prev_lead_x = 0.0, new_lead = False, lastTR = 0,
      last_cloudlog_t = 0.0, last_cost = 0, rel_vel = 0\<rparr>"

definition lead_default :: lead where
  "lead_default = \<lparr>status = False, dRel = 0, vLead = 0, vLeadK = 0, aLeadK = 0, aLeadTau = 0,
     vRel = 0, yRel = 0, vLat = 0, lead_fcw = 0\<rparr>"

definition live20_default :: live20 where
  "live20_default = \<lparr>l20_logMonoTime = 0, leadOne = lead_default, leadTwo = lead_default,
     radarErrors = []\<rparr>"

text \<open>
  \<^verbatim>\<open>Planner.__init__\<close>; \<open>t0\<close> is the clock at construction, \<open>pp0\<close> the path planner
  as constructed, \<open>l\<close> the state of the solver library as loaded.
\<close>

definition Planner_init :: "'l planner_env \<Rightarrow> car_params \<Rightarrow> bool \<Rightarrow> real \<Rightarrow> PathPlanner \<Rightarrow> 'l \<Rightarrow> 'l Planner" where
  "Planner_init env cp fcw_en t0 pp0 l =
     \<lparr>CP = cp, last_md_ts = 0, last_l20_ts = 0, last_model = 0, last_l20 = 0,
      model_dead = True, radar_dead = True, radar_errors = [],
      PP = pp0,
      mpc1 = LongitudinalMpc_init (libmpc.truncate env) 1 l,
      mpc2 = LongitudinalMpc_init (libmpc.truncate env) 2 l,
      v_acc_start = Num 0.0, a_acc_start = Num 0.0, acc_start_time = t0,
      v_acc = Num 0.0, v_acc_sol = Num 0.0, v_acc_future = Num 0.0,
      a_acc = Num 0.0, a_acc_sol = Num 0.0, v_cruise = Num 0.0, a_cruise = Num 0.0,
      lead_1 = None, lead_2 = None,
      longitudinalPlanSource = ''cruise'', fcw = False,
      fcw_checker = reset_lead 0.0 fcw_init, fcw_enabled = fcw_en,
      last_gps_planner_plan = None, gps_planner_active = False,
      last_live_map_data = None, lastlat_Control = None,
      perception_state = live20_default,
      v_curvature = NO_CURVATURE_SPEED, v_speedlimit = NO_CURVATURE_SPEED,
      decel_for_turn = False, map_valid = False\<rparr>"

subsection \<open>Concrete inputs\<close>

text \<open>
  A stand-in solver and environment on which the definitions can be run: the solver
  has no state and always writes the same collision-free trajectory; the speed smoother
  returns its target; the parameter store enables the speed limit with offset 0.
\<close>

definition sol_ok :: log_t where
  "sol_ok = \<lparr>sol_x_ego = replicate 21 (Num 0), sol_v_ego = replicate 21 (Num 1),
     sol_a_ego = replicate 21 (Num 0), sol_x_l = replicate 21 (Num 50),
     sol_v_l = replicate 21 (Num 1), sol_cost = Num 0\<rparr>"

definition sol_nan :: log_t where
  "sol_nan = sol_ok\<lparr>sol_v_ego := replicate 21 NaN\<rparr>"

definition env0 :: "unit planner_env" where
  "env0 =
     \<lparr>lib_init = (\<lambda>_ _ _ _ l. l),
      lib_init_with_simulation = (\<lambda>_ _ _ _ _ l. l),
      lib_run_mpc = (\<lambda>cur sol _ _ _ l. (cur, sol_ok, 3, l)),
      COST_TTC = 5, COST_DISTANCE = 0.1, COST_ACCELERATION = 10, COST_JERK = 20,
      LEAD_ACCEL_TAU = 1.5,
      KPH_TO_MS = 1 / 3.6, DEG_TO_RAD = 0.0174533, MIN_CAN_SPEED = 0.3,
      speed_smoother = (\<lambda>v a vt amax amin jmax jmin dt. (vt, Num 0)),
      pp_update = (\<lambda>_ _ _ p. p),
      params_get = (\<lambda>k. if k = ''LimitSetSpeed'' then Some ''1''
                         else if k = ''SpeedLimitOffset'' then Some ''0'' else None),
      py_float = (\<lambda>str. if str = ''0'' then Some 0 else None),
      key_rank = (\<lambda>_. 0)\<rparr>"

definition lib0 :: "unit libmpc" where
  "lib0 = libmpc.truncate env0"

definition lib_nan :: "unit libmpc" where
  "lib_nan = lib0\<lparr>lib_run_mpc := (\<lambda>cur sol _ _ _ l. (cur, sol_nan, 3, l))\<rparr>"

definition CS0 :: car_state where
  "CS0 = \<lparr>vEgo = 20, aEgo = 0, steeringAngle = 0, brakePressed = False,
     leftBlinker = False, rightBlinker = False, readdistancelines = 0\<rparr>"

definition lead0 :: lead where
  "lead0 = \<lparr>status = True, dRel = 31, vLead = 10, vLeadK = 10, aLeadK = 0, aLeadTau = 1.5,
     vRel = - 10, yRel = 0, vLat = 0, lead_fcw = 1\<rparr>"

definition mpc0 :: "unit LongitudinalMpc" where
  "mpc0 = LongitudinalMpc_init lib0 1 ()"

definition pp0 :: PathPlanner where
  "pp0 = \<lparr>d_poly = [0, 0, 0, 0], p_poly = [0, 0, 0, 0], c_poly = [0, 0, 0, 0],
     l_poly = [0, 0, 0, 0], r_poly = [0, 0, 0, 0], l_prob = 0, r_prob = 0, c_prob = 0,
     lane_width = 3.7\<rparr>"

definition planner0 :: "unit Planner" where
  "planner0 = Planner_init env0 \<lparr>steerRatio = 15, wheelbase = 2.7, startAccel = 0.5\<rparr> True 0 pp0 ()"

text \<open>A checker whose eight counters are all armed, and a call that asks for a warning.\<close>

definition fcw_armed :: FCWChecker where
  "fcw_armed = fcw_init\<lparr>v_lead_max := 10,
     counters := [(''v_ego'', 10), (''ttc'', 10), (''v_lead_max'', 10), (''v_ego_lead'', 10),
                  (''lead_seen'', 10), (''y_lead'', 10), (''vlat_lead'', 10), (''blinkers'', 10)]\<rparr>"

definition fcw_call :: "real \<Rightarrow> fcw_args" where
  "fcw_call t = \<lparr>arg_mpc_solution_a = replicate 21 (Num (- 4)), arg_cur_time = t,
     arg_v_ego = 20, arg_a_ego = 0, arg_x_lead = 0, arg_v_lead = 10, arg_a_lead = 0,
     arg_y_lead = 0, arg_vlat_lead = 0, arg_fcw_lead = 1, arg_blinkers = False\<rparr>"

text \<open>
  The wrapper after a first call with the lead \<open>lead0\<close>, and after a second call with
  no lead.
\<close>

definition mpc_seen :: "unit LongitudinalMpc" where
  "mpc_seen = mpc0\<lparr>mpc_solution := sol_ok,
     cur_state := \<lparr>st_x_ego = Num 0, st_v_ego = Num 0, st_a_ego = Num 0, st_x_l = Num 30,
                    st_v_l = Num 10\<rparr>,
     a_lead_tau := 1.5, v_mpc := Num 1, v_mpc_future := Num 1, a_mpc := Num 0,
     prev_lead_status := True, prev_lead_x := 30, new_lead := True\<rparr>"

definition mpc_lost :: "unit LongitudinalMpc" where
  "mpc_lost = mpc_seen\<lparr>
     cur_state := \<lparr>st_x_ego = Num 0, st_v_ego = Num 0, st_a_ego = Num 0, st_x_l = Num 50,
                    st_v_l = Num 30\<rparr>,
     prev_lead_status := False\<rparr>"

text \<open>Map data with a valid map, speed limit and curvature, and a quiet lateral controller.\<close>

definition map_curve :: live_map_data where
  "map_curve = \<lparr>mapValid = True, speedLimitValid = True, speedLimit = 25,
     curvatureValid = True, curvature = - 0.074, distToTurn = 100\<rparr>"

definition LaC0 :: lat_controller where
  "LaC0 = \<lparr>lac_cost = Num 0, mpc_nans = False\<rparr>"

text \<open>A solution with the 21 nodes of the C structure in every trajectory the wrapper reads.\<close>

definition wf_log :: "log_t \<Rightarrow> bool" where
  "wf_log sol = (length (sol_x_ego sol) = 21 \<and> length (sol_v_ego sol) = 21
     \<and> length (sol_a_ego sol) = 21 \<and> length (sol_x_l sol) = 21)"

subsection \<open>Ticks\<close>


section \<open>Properties\<close>

subsection \<open>Evaluation lemmas\<close>

lemma py_min_replicate: "0 < n \<Longrightarrow> py_min (replicate n x) = Inr x"
proof -
  have i: "py_min2 x x = x" by (cases x) (simp_all add: py_min2_def)
  have f: "foldl py_min2 x (replicate m x) = x" for m
    by (induction m) (simp_all add: i)
  assume "0 < n"
  then obtain m where "n = Suc m" by (cases n) auto
  then show ?thesis using f by simp
qed

lemma list_ex_replicate: "list_ex P (replicate n x) = (0 < n \<and> P x)"
  by (induction n) auto

lemma np_sub_replicate:
  "np_sub (replicate n (Num a)) (replicate n (Num b)) = Inr (replicate n (Num (a - b)))"
  by (simp add: np_sub_def zip_replicate)

lemma py_index_replicate: "i < n \<Longrightarrow> py_index (replicate n x) i = Inr x"
  by (simp add: py_index_def)

lemma sqrt_100: "sqrt 100 = 10"
  by (rule real_sqrt_unique) simp_all

lemma py_min2_numbers: "py_min2 (Num a) (Num b) = Num (min a b)"
  by (simp add: py_min2_def min_def)

lemma py_max2_numbers: "py_max2 (Num a) (Num b) = Num (max a b)"
  by (simp add: py_max2_def fl_gt_def max_def)

subsection \<open>Time to collision\<close>

text \<open>On numbers \<^verbatim>\<open>calc_ttc\<close> does not raise and computes the formula over the reals.\<close>

lemma calc_ttc_numbers:
  "calc_ttc (Num v_ego) (Num a_ego) (Num x_lead) (Num v_lead) (Num a_lead) =
     Inr (Num (let v_rel = v_ego - v_lead;
                   a_rel = min (a_ego - a_lead) (v_lead / 2);
                   delta = v_rel * v_rel + 2 * x_lead * a_rel
               in if delta < 0.1 \<or> sqrt delta + v_rel < 0.1 then 5
                  else min (2 * x_lead / (sqrt delta + v_rel)) 5))"
proof -
  define a_rel where "a_rel = min (a_ego - a_lead) (v_lead / 2)"
  define v_rel where "v_rel = v_ego - v_lead"
  define delta where "delta = v_rel * v_rel + 2 * x_lead * a_rel"
  show ?thesis
  proof (cases "delta < 0.1")
    case True
    then show ?thesis
      by (simp add: calc_ttc_def bindE_def Let_def a_rel_def v_rel_def delta_def)
  next
    case False
    then have "\<not> delta < 0" by simp
    with False show ?thesis
      by (simp add: calc_ttc_def bindE_def Let_def a_rel_def v_rel_def delta_def)
  qed
qed






subsection \<open>The time gap\<close>

lemma frac_below_one: "0 < (e::real) \<Longrightarrow> 1 / (1 + e) < 1"
  by (simp add: field_simps)

lemma sigmoid_range: "0 < 1 / (1 + exp (- x)) \<and> 1 / (1 + exp (- x)) < (1::real)"
proof -
  have e: "0 < exp (- x)" by simp
  then have p: "0 < 1 + exp (- x)" by linarith
  have "0 < 1 / (1 + exp (- x))" using p by (rule divide_pos_pos[OF zero_less_one])
  moreover have "1 / (1 + exp (- x)) < 1" using e by (rule frac_below_one)
  ultimately show ?thesis by simp
qed

lemma remap_range_numbers:
  "remap_range (Num v) ''vel'' = Inr (Num (min (max (v / 53.6448) 0) 1))"
  "remap_range (Num v) ''rel_vel'' = Inr (Num (min (max ((v + 8.9408) / 12.07008) 0) 1))"
  "remap_range (Num v) ''rvs_dist'' = Inr (Num (min (max (v * 2.03 + 0.67) 0.67) 2.7))"
  by (simp_all add: remap_range_def remap_ranges_def bindE_def Let_def
      py_min2_numbers py_max2_numbers)

lemma py_round2_range:
  assumes "0.67 \<le> r" "r \<le> 2.7"
  shows "0.67 \<le> py_round2 r \<and> py_round2 r \<le> 2.7"
proof -
  have pos: "0 \<le> r" using assms by simp
  have "(67::int) \<le> \<lfloor>r * 100 + 1 / 2\<rfloor>" using assms by (simp add: le_floor_iff)
  moreover have "\<lfloor>r * 100 + 1 / 2\<rfloor> \<le> (270::int)" using assms by (simp add: floor_le_iff)
  ultimately have "67 \<le> real_of_int \<lfloor>r * 100 + 1 / 2\<rfloor>
       \<and> real_of_int \<lfloor>r * 100 + 1 / 2\<rfloor> \<le> 270"
    by linarith
  then show ?thesis using pos by (simp add: py_round2_def)
qed

lemma py_round2_hundredths: "\<exists>k::int. py_round2 r = real_of_int k / 100"
proof (cases "0 \<le> r")
  case True
  then show ?thesis by (auto simp: py_round2_def)
next
  case False
  then have "py_round2 r = real_of_int (- \<lfloor>- r * 100 + 1 / 2\<rfloor>) / 100"
    by (simp add: py_round2_def)
  then show ?thesis by blast
qed

lemma generateTR_numbers:
  "generateTR (Num rel_v) (Num velocity) =
     Inr (Num (py_round2 (min (max
       (1 / (1 + exp (- (min (max (velocity / 53.6448) 0) 1 * 3.0327508
                         + min (max ((rel_v + 8.9408) / 12.07008) 0) 1 * (- 2.07414288))))
        * 2.03 + 0.67) 0.67) 2.7)))"
  by (simp add: generateTR_def think_def bindE_def Let_def remap_range_numbers
      synaptic_weights_def)

lemma generateTR_returns: "\<exists>tr. generateTR (Num rel_v) (Num velocity) = Inr (Num tr)"
  using generateTR_numbers by blast

text \<open>
  C8, amended: for every ego velocity and every latched relative velocity that are
  numbers (no NaN), \<^verbatim>\<open>generateTR\<close> returns a number in the interval from 0.67 to 2.7:
  both inputs are remapped and clamped to the unit interval, the sigmoid of their
  weighted sum is remapped into the interval from 0.67 to 2.7 with clamping, and the
  result is rounded to a whole number of hundredths.
\<close>

theorem generateTR_range:
  "\<exists>i0 i1 out tr.
     i0 = min (max (velocity / 53.6448) 0) 1 \<and> 0 \<le> i0 \<and> i0 \<le> 1
     \<and> i1 = min (max ((rel_v + 8.9408) / 12.07008) 0) 1 \<and> 0 \<le> i1 \<and> i1 \<le> 1
     \<and> out = 1 / (1 + exp (- (i0 * 3.0327508 + i1 * (- 2.07414288)))) \<and> 0 < out \<and> out < 1
     \<and> tr = py_round2 (min (max (out * 2.03 + 0.67) 0.67) 2.7)
     \<and> generateTR (Num rel_v) (Num velocity) = Inr (Num tr)
     \<and> 0.67 \<le> tr \<and> tr \<le> 2.7 \<and> (\<exists>k::int. tr = real_of_int k / 100)"
proof -
  define i0 :: real where "i0 = min (max (velocity / 53.6448) 0) 1"
  define i1 :: real where "i1 = min (max ((rel_v + 8.9408) / 12.07008) 0) 1"
  define out :: real where "out = 1 / (1 + exp (- (i0 * 3.0327508 + i1 * (- 2.07414288))))"
  define c :: real where "c = min (max (out * 2.03 + 0.67) 0.67) 2.7"
  have b0: "0 \<le> i0 \<and> i0 \<le> 1" by (simp add: i0_def)
  have b1: "0 \<le> i1 \<and> i1 \<le> 1" by (simp add: i1_def)
  have bo: "0 < out \<and> out < 1" unfolding out_def by (rule sigmoid_range)
  have bc: "0.67 \<le> c" "c \<le> 2.7" unfolding c_def by (simp_all add: min_def max_def)
  have g: "generateTR (Num rel_v) (Num velocity) = Inr (Num (py_round2 c))"
    unfolding generateTR_numbers c_def out_def i0_def i1_def by simp
  from b0 b1 bo g py_round2_range[OF bc] py_round2_hundredths[of c]
  show ?thesis unfolding c_def out_def i0_def i1_def by blast
qed

text \<open>
  C8, as claimed: a finite value for every ego velocity. The builtins \<^verbatim>\<open>max\<close> and
  \<^verbatim>\<open>min\<close> of the clamp keep a first argument that is NaN, so an ego velocity that
  is NaN passes both clamps and the rounding: the result is NaN.
\<close>

theorem generateTR_nan: "generateTR (Num 0) NaN = Inr NaN"
  by (simp add: generateTR_def think_def remap_range_def remap_ranges_def bindE_def Let_def
      py_min2_def py_max2_def fl_gt_def)

subsection \<open>The rate limit of the collision warning\<close>

lemma FCWChecker_update_fire:
  assumes "FCWChecker_update s a = Inr (True, s')"
  shows "last_fcw_time s + 5 < arg_cur_time a \<and> last_fcw_time s' = arg_cur_time a
     \<and> list_all (\<lambda>kc. snd kc \<ge> 10) (counters s') \<and> arg_fcw_lead a > 0.99"
  using assms
  by (auto simp: FCWChecker_update_def bindE_def Let_def split: sum.splits if_splits)

text \<open>The deceleration condition of a call that fires.\<close>

lemma FCWChecker_update_fire_decel:
  assumes "FCWChecker_update s a = Inr (True, s')"
  shows "\<exists>min_a min15.
       py_min (arg_mpc_solution_a a) = Inr min_a
       \<and> py_min (take 15 (arg_mpc_solution_a a)) = Inr min15
       \<and> last_min_a s' = min_a \<and> last_fcw_a s' = min_a
       \<and> (fl_lt min_a (Num (- 3))
          \<or> fl_lt (fl_sub min15 (Num (min 0 (arg_a_ego a))))
                  (Num (interp (arg_v_lead a) FCW_A_ACT_BP FCW_A_ACT_V)))"
  using assms
  by (auto simp: FCWChecker_update_def bindE_def Let_def split: sum.splits if_splits)

lemma FCWChecker_update_quiet:
  assumes "FCWChecker_update s a = Inr (False, s')"
  shows "last_fcw_time s' = last_fcw_time s"
  using assms
  by (auto simp: FCWChecker_update_def bindE_def Let_def split: sum.splits if_splits)

lemma FCWChecker_update_time_mono:
  assumes "FCWChecker_update s a = Inr (r, s')" "T \<le> last_fcw_time s" "T \<le> arg_cur_time a"
  shows "T \<le> last_fcw_time s'"
  using assms FCWChecker_update_fire[of s a s'] FCWChecker_update_quiet[of s a s']
  by (cases r) auto

text \<open>While the last warning is at \<open>T\<close> or later, no call up to \<open>T + 5\<close> fires.\<close>

lemma fcw_run_blocked:
  assumes "sorted (map arg_cur_time as)" "T \<le> last_fcw_time s"
    "\<forall>a \<in> set as. T \<le> arg_cur_time a"
    "j < length (fcw_run s as)" "arg_cur_time (as ! j) \<le> T + 5"
  shows "\<not> fcw_run s as ! j"
  using assms
proof (induction as arbitrary: s j)
  case Nil
  then show ?case by simp
next
  case (Cons a as)
  show ?case
  proof (cases "FCWChecker_update s a")
    case (Inl e)
    with Cons.prems show ?thesis by simp
  next
    case (Inr p)
    obtain r s' where p: "p = (r, s')" by (cases p)
    have run: "fcw_run s (a # as) = r # fcw_run s' as" using Inr p by simp
    have T': "T \<le> last_fcw_time s'"
      using FCWChecker_update_time_mono[of s a r s' T] Inr p Cons.prems by simp
    show ?thesis
    proof (cases j)
      case 0
      have "\<not> r"
      proof
        assume r
        with Inr p have "FCWChecker_update s a = Inr (True, s')" by simp
        from FCWChecker_update_fire[OF this] have "last_fcw_time s + 5 < arg_cur_time a" by simp
        with Cons.prems 0 show False by simp
      qed
      with run 0 show ?thesis by simp
    next
      case (Suc k)
      have "\<not> fcw_run s' as ! k"
        using Cons.IH[of s' k] Cons.prems T' run Suc by simp
      with run Suc show ?thesis by simp
    qed
  qed
qed

lemma fcw_run_rate:
  assumes "sorted (map arg_cur_time as)" "i < j" "j < length (fcw_run s as)"
    "fcw_run s as ! i" "arg_cur_time (as ! j) \<le> arg_cur_time (as ! i) + 5"
  shows "\<not> fcw_run s as ! j"
  using assms
proof (induction as arbitrary: s i j)
  case Nil
  then show ?case by simp
next
  case (Cons a as)
  show ?case
  proof (cases "FCWChecker_update s a")
    case (Inl e)
    with Cons.prems show ?thesis by simp
  next
    case (Inr p)
    obtain r s' where p: "p = (r, s')" by (cases p)
    have run: "fcw_run s (a # as) = r # fcw_run s' as" using Inr p by simp
    obtain k where j: "j = Suc k" using Cons.prems(2) by (cases j) auto
    have klen: "k < length (fcw_run s' as)" using Cons.prems(3) run j by simp
    have srt: "sorted (map arg_cur_time as)" using Cons.prems(1) by simp
    show ?thesis
    proof (cases i)
      case 0
      then have r using Cons.prems(4) run by simp
      with Inr p have "FCWChecker_update s a = Inr (True, s')" by simp
      from FCWChecker_update_fire[OF this] have t: "last_fcw_time s' = arg_cur_time a" by simp
      have ge: "\<forall>b \<in> set as. arg_cur_time a \<le> arg_cur_time b" using Cons.prems(1) by simp
      have "arg_cur_time (as ! k) \<le> arg_cur_time a + 5" using Cons.prems(5) 0 j by simp
      from fcw_run_blocked[OF srt _ ge klen this] t have "\<not> fcw_run s' as ! k" by simp
      with run j show ?thesis by simp
    next
      case (Suc i')
      have "\<not> fcw_run s' as ! k"
        using Cons.IH[of i' k s'] srt Cons.prems run j Suc klen by simp
      with run j show ?thesis by simp
    qed
  qed
qed

text \<open>The armed checker on two calls three seconds apart.\<close>

lemma calc_ttc_call: "calc_ttc (Num 20) (Num 0) (Num 0) (Num 10) (Num 0) = Inr (Num 0)"
  by (simp add: calc_ttc_numbers Let_def sqrt_100)

lemma fcw_call_simps:
  "arg_mpc_solution_a (fcw_call t) = replicate 21 (Num (- 4))" "arg_cur_time (fcw_call t) = t"
  "arg_v_ego (fcw_call t) = 20" "arg_a_ego (fcw_call t) = 0" "arg_x_lead (fcw_call t) = 0"
  "arg_v_lead (fcw_call t) = 10" "arg_a_lead (fcw_call t) = 0" "arg_y_lead (fcw_call t) = 0"
  "arg_vlat_lead (fcw_call t) = 0" "arg_fcw_lead (fcw_call t) = 1" "arg_blinkers (fcw_call t) = False"
  by (simp_all add: fcw_call_def)

lemma update_counters_armed:
  "update_counters (fcw_call t) (Num 0) 10
     [(''v_ego'', a), (''ttc'', b), (''v_lead_max'', c), (''v_ego_lead'', d),
      (''lead_seen'', e), (''y_lead'', f), (''vlat_lead'', g), (''blinkers'', h)]
   = [(''v_ego'', a + 1), (''ttc'', b + 1), (''v_lead_max'', c + 1), (''v_ego_lead'', d + 1),
      (''lead_seen'', e + 0.33), (''y_lead'', f + 1), (''vlat_lead'', g + 1), (''blinkers'', h + 1 / 6)]"
  by (simp add: update_counters_def count_if_def counter_get_def fcw_call_simps Let_def)

lemma fcw_step:
  assumes "counters s = [(''v_ego'', a), (''ttc'', b), (''v_lead_max'', c), (''v_ego_lead'', d),
      (''lead_seen'', e), (''y_lead'', f), (''vlat_lead'', g), (''blinkers'', h)]"
    and "v_lead_max s = 10"
    and "9 \<le> a" "9 \<le> b" "9 \<le> c" "9 \<le> d" "10 \<le> e" "9 \<le> f" "9 \<le> g" "10 \<le> h"
  shows "FCWChecker_update s (fcw_call t) =
     Inr (last_fcw_time s + 5 < t,
          s\<lparr>last_min_a := Num (- 4),
            counters := [(''v_ego'', a + 1), (''ttc'', b + 1), (''v_lead_max'', c + 1),
               (''v_ego_lead'', d + 1), (''lead_seen'', e + 0.33), (''y_lead'', f + 1),
               (''vlat_lead'', g + 1), (''blinkers'', h + 1 / 6)],
            last_fcw_time := (if last_fcw_time s + 5 < t then t else last_fcw_time s),
            last_fcw_a := (if last_fcw_time s + 5 < t then Num (- 4) else last_fcw_a s)\<rparr>)"
proof -
  have m: "py_min (replicate 21 (Num (- 4))) = Inr (Num (- 4))"
    "py_min (take 15 (replicate 21 (Num (- 4)))) = Inr (Num (- 4))"
    by (simp_all add: py_min_replicate)
  show ?thesis
    using assms(3-)
    by (simp add: FCWChecker_update_def fcw_call_simps py_min_replicate bindE_def Let_def calc_ttc_call
        assms(1,2) update_counters_armed FCW_A_ACT_BP_def FCW_A_ACT_V_def)
qed

lemma fcw_run_armed: "fcw_run fcw_armed [fcw_call 100, fcw_call 103] = [True, False]"
proof -
  have c0: "counters fcw_armed = [(''v_ego'', 10), (''ttc'', 10), (''v_lead_max'', 10),
      (''v_ego_lead'', 10), (''lead_seen'', 10), (''y_lead'', 10), (''vlat_lead'', 10),
      (''blinkers'', 10)]"
    and v0: "v_lead_max fcw_armed = 10" and t0: "last_fcw_time fcw_armed = 0"
    by (simp_all add: fcw_armed_def fcw_init_def)
  define s1 where "s1 = fcw_armed\<lparr>last_min_a := Num (- 4),
            counters := [(''v_ego'', 10 + 1), (''ttc'', 10 + 1), (''v_lead_max'', 10 + 1),
               (''v_ego_lead'', 10 + 1), (''lead_seen'', 10 + 0.33), (''y_lead'', 10 + 1),
               (''vlat_lead'', 10 + 1), (''blinkers'', 10 + 1 / 6)],
            last_fcw_time := 100, last_fcw_a := Num (- 4)\<rparr>"
  have u1: "FCWChecker_update fcw_armed (fcw_call 100) = Inr (True, s1)"
    using fcw_step[OF c0 v0, of 100] by (simp add: t0 s1_def)
  have c1: "counters s1 = [(''v_ego'', 10 + 1), (''ttc'', 10 + 1), (''v_lead_max'', 10 + 1),
               (''v_ego_lead'', 10 + 1), (''lead_seen'', 10 + 0.33), (''y_lead'', 10 + 1),
               (''vlat_lead'', 10 + 1), (''blinkers'', 10 + 1 / 6)]"
    and v1: "v_lead_max s1 = 10" and t1: "last_fcw_time s1 = 100"
    by (simp_all add: s1_def v0)
  obtain s2 where u2: "FCWChecker_update s1 (fcw_call 103) = Inr (False, s2)"
    using fcw_step[OF c1 v1, of 103] by (simp add: t1)
  show ?thesis by (simp add: u1 u2)
qed

text \<open>
  C9. The warning fires at most once in 5 seconds: in every trace of calls of
  \<^verbatim>\<open>FCWChecker.update\<close> with non-decreasing \<^verbatim>\<open>cur_time\<close>, if a call at time \<open>t\<close>
  returns true, every later call at a time up to \<open>t + 5\<close> returns false. A call
  returns true only if the lead is flagged, all counters are at least 10, the
  deceleration condition holds (the least planned acceleration is below -3, or the least
  of its first 15 nodes, less \<^verbatim>\<open>min(0, a_ego)\<close>, is below the threshold interpolated at
  \<^verbatim>\<open>v_lead\<close>) and more than 5 seconds have passed since \<^verbatim>\<open>last_fcw_time\<close>, which it
  then sets to its own time.
\<close>

theorem fcw_rate_limited:
  "(sorted (map arg_cur_time as) \<and> i < j \<and> j < length (fcw_run s as) \<and> fcw_run s as ! i
      \<and> arg_cur_time (as ! j) \<le> arg_cur_time (as ! i) + 5
    \<longrightarrow> \<not> fcw_run s as ! j)
   \<and> (FCWChecker_update s a = Inr (True, s')
    \<longrightarrow> last_fcw_time s + 5 < arg_cur_time a \<and> last_fcw_time s' = arg_cur_time a
        \<and> list_all (\<lambda>kc. snd kc \<ge> 10) (counters s') \<and> arg_fcw_lead a > 0.99
        \<and> (\<exists>min_a min15.
              py_min (arg_mpc_solution_a a) = Inr min_a
              \<and> py_min (take 15 (arg_mpc_solution_a a)) = Inr min15
              \<and> last_min_a s' = min_a \<and> last_fcw_a s' = min_a
              \<and> (fl_lt min_a (Num (- 3))
                 \<or> fl_lt (fl_sub min15 (Num (min 0 (arg_a_ego a))))
                         (Num (interp (arg_v_lead a) FCW_A_ACT_BP FCW_A_ACT_V)))))"
  using fcw_run_rate[of as i j s] FCWChecker_update_fire[of s a s']
    FCWChecker_update_fire_decel[of s a s'] by blast

theorem fcw_rate_limited_witness:
  "sorted (map arg_cur_time [fcw_call 100, fcw_call 103])
   \<and> arg_cur_time (fcw_call 103) \<le> arg_cur_time (fcw_call 100) + 5
   \<and> length (fcw_run fcw_armed [fcw_call 100, fcw_call 103]) = 2
   \<and> fcw_run fcw_armed [fcw_call 100, fcw_call 103] ! 0
   \<and> \<not> fcw_run fcw_armed [fcw_call 100, fcw_call 103] ! 1"
proof -
  let ?as = "[fcw_call 100, fcw_call 103]"
  have srt: "sorted (map arg_cur_time ?as)"
    and le: "arg_cur_time (?as ! 1) \<le> arg_cur_time (?as ! 0) + 5"
    and le': "arg_cur_time (fcw_call 103) \<le> arg_cur_time (fcw_call 100) + 5"
    by (simp_all add: fcw_call_simps)
  have len: "length (fcw_run fcw_armed ?as) = 2"
    and fire: "fcw_run fcw_armed ?as ! 0"
    unfolding fcw_run_armed by simp_all
  have ord: "(0::nat) < 1" "1 < length (fcw_run fcw_armed ?as)" unfolding len by simp_all
  from fcw_rate_limited[of ?as 0 1 fcw_armed] srt ord fire le
  have "\<not> fcw_run fcw_armed ?as ! 1" by blast
  with srt le' len fire show ?thesis by blast
qed

subsection \<open>The solver wrapper\<close>

lemma mpc_read_solution_keeps_solution:
  assumes "mpc_read_solution lib CS t s = Inr s'"
  shows "mpc_solution s' = mpc_solution s"
  using assms
  by (auto simp: mpc_read_solution_def bindE_def Let_def split: sum.splits if_splits)

lemma mpc_read_solution_nan:
  assumes "mpc_read_solution lib CS t s = Inr s'"
    and "list_ex is_nan (sol_v_ego (mpc_solution s))"
  shows "st_v_ego (cur_state s') = Num (vEgo CS) \<and> st_a_ego (cur_state s') = Num 0
     \<and> v_mpc s' = Num (vEgo CS) \<and> a_mpc s' = Num (aEgo CS) \<and> \<not> prev_lead_status s'"
  using assms
  by (auto simp: mpc_read_solution_def bindE_def Let_def split: sum.splits if_splits)

lemma mpc_read_solution_new_lead:
  assumes "mpc_read_solution lib CS t s = Inr s'"
  shows "new_lead s' = new_lead s"
  using assms
  by (auto simp: mpc_read_solution_def bindE_def Let_def split: sum.splits if_splits)

lemma mpc_select_TR_new_lead:
  assumes "mpc_select_TR lib CS s = Inr (s', TR)"
  shows "new_lead s' = new_lead s"
  using assms
  by (auto simp: mpc_select_TR_def bindE_def Let_def split: sum.splits if_splits pyfloat.splits)

lemma mpc_select_TR_returns: "\<exists>r. mpc_select_TR lib CS s = Inr r"
proof -
  obtain tr where "generateTR (Num (rel_vel s)) (Num (vEgo CS)) = Inr (Num tr)"
    using generateTR_returns by blast
  then have "mpc_select_TR lib CS s \<noteq> Inl e" for e
    by (simp add: mpc_select_TR_def bindE_def split: pyfloat.splits)
  then show ?thesis by (cases "mpc_select_TR lib CS s") auto
qed

text \<open>The steps of a call of \<^verbatim>\<open>update\<close> that returns.\<close>

lemma mpc_update_Inr:
  assumes "mpc_update lib CS ld v t s = Inr s'"
  obtains s1 a s2 TR cur sol n l where
    "mpc_lead_branch lib CS ld (s\<lparr>cur_state := (cur_state s)\<lparr>st_x_ego := Num 0\<rparr>\<rparr>) = (s1, a)"
    "mpc_select_TR lib CS s1 = Inr (s2, TR)"
    "lib_run_mpc lib (cur_state s2) (mpc_solution s2) (a_lead_tau s2) a TR (solver s2)
       = (cur, sol, n, l)"
    "mpc_read_solution lib CS t (s2\<lparr>cur_state := cur, mpc_solution := sol, solver := l\<rparr>) = Inr s'"
  using assms
  by (auto simp: mpc_update_def bindE_def Let_def split: sum.splits prod.splits)

lemma mpc_update_new_lead:
  assumes "mpc_update lib CS ld v t s = Inr s'"
  shows "new_lead s' = new_lead (fst (mpc_lead_branch lib CS ld
        (s\<lparr>cur_state := (cur_state s)\<lparr>st_x_ego := Num 0\<rparr>\<rparr>)))"
proof -
  from assms obtain s1 a s2 TR cur sol n l where
    lb: "mpc_lead_branch lib CS ld (s\<lparr>cur_state := (cur_state s)\<lparr>st_x_ego := Num 0\<rparr>\<rparr>) = (s1, a)"
    and sel: "mpc_select_TR lib CS s1 = Inr (s2, TR)"
    and rd: "mpc_read_solution lib CS t (s2\<lparr>cur_state := cur, mpc_solution := sol, solver := l\<rparr>)
               = Inr s'"
    by (rule mpc_update_Inr)
  show ?thesis
    using mpc_select_TR_new_lead[OF sel] mpc_read_solution_new_lead[OF rd] lb by simp
qed

text \<open>
  With a lead present, \<^verbatim>\<open>new_lead\<close> tells whether this call seeded the solver anew.
\<close>

lemma mpc_update_lead_new_lead:
  assumes "mpc_update lib CS (Some l) v t s = Inr s'" and "status l"
  shows "new_lead s' = (\<not> prev_lead_status s \<or> \<bar>max 0 (dRel l - 1) - prev_lead_x s\<bar> > 2.5)"
  using mpc_update_new_lead[OF assms(1)] assms(2)
  by (simp add: mpc_lead_branch_def Let_def)

text \<open>Without a lead, \<^verbatim>\<open>new_lead\<close> is not written: it keeps the value of the call before.\<close>

lemma mpc_update_no_lead_new_lead:
  assumes "mpc_update lib CS ld v t s = Inr s'"
    and "ld = None \<or> (\<exists>l. ld = Some l \<and> \<not> status l)"
  shows "new_lead s' = new_lead s"
  using mpc_update_new_lead[OF assms(1)] assms(2)
  by (auto simp: mpc_lead_branch_def Let_def)


lemma mpc_update_nan_reset_aux:
  assumes "mpc_update lib CS ld v t s = Inr s'"
    and "list_ex is_nan (sol_v_ego (mpc_solution s'))"
  shows "st_v_ego (cur_state s') = Num (vEgo CS) \<and> st_a_ego (cur_state s') = Num 0
     \<and> v_mpc s' = Num (vEgo CS) \<and> a_mpc s' = Num (aEgo CS) \<and> \<not> prev_lead_status s'"
proof -
  from assms(1) obtain s3 where r: "mpc_read_solution lib CS t s3 = Inr s'"
    by (rule mpc_update_Inr)
  have "mpc_solution s' = mpc_solution s3" using r by (rule mpc_read_solution_keeps_solution)
  with assms(2) have "list_ex is_nan (sol_v_ego (mpc_solution s3))" by simp
  with r show ?thesis by (rule mpc_read_solution_nan)
qed

text \<open>
  The solution the wrapper holds when \<^verbatim>\<open>update\<close> returns is the one the solver wrote in
  that call.
\<close>

lemma mpc_update_solution:
  assumes "mpc_update lib CS ld v t s = Inr s'"
  shows "\<exists>cur sol tau a TR l. mpc_solution s' = fst (snd (lib_run_mpc lib cur sol tau a TR l))"
proof -
  from assms obtain s1 a s2 TR cur sol n l where
    run: "lib_run_mpc lib (cur_state s2) (mpc_solution s2) (a_lead_tau s2) a TR (solver s2)
       = (cur, sol, n, l)"
    and rd: "mpc_read_solution lib CS t (s2\<lparr>cur_state := cur, mpc_solution := sol, solver := l\<rparr>)
               = Inr s'"
    by (rule mpc_update_Inr)
  have "mpc_solution s' = sol" using mpc_read_solution_keeps_solution[OF rd] by simp
  also have "\<dots> = fst (snd (lib_run_mpc lib (cur_state s2) (mpc_solution s2) (a_lead_tau s2) a TR (solver s2)))"
    by (simp add: run)
  finally show ?thesis by blast
qed

text \<open>\<^verbatim>\<open>update\<close> returns whenever the solver writes its 21 nodes.\<close>

lemma py_min_returns: "xs \<noteq> [] \<Longrightarrow> \<exists>r. py_min xs = Inr r"
  by (cases xs) simp_all

lemma mpc_read_solution_returns:
  assumes "wf_log (mpc_solution s)"
  shows "\<exists>s'. mpc_read_solution lib CS t s = Inr s'"
proof -
  let ?sol = "mpc_solution s"
  from assms have len: "length (sol_x_ego ?sol) = 21" "length (sol_v_ego ?sol) = 21"
    "length (sol_a_ego ?sol) = 21" "length (sol_x_l ?sol) = 21"
    by (simp_all add: wf_log_def)
  have i: "py_index (sol_v_ego ?sol) (Suc 0) = Inr (sol_v_ego ?sol ! 1)"
    "py_index (sol_a_ego ?sol) (Suc 0) = Inr (sol_a_ego ?sol ! 1)"
    "py_index (sol_v_ego ?sol) 10 = Inr (sol_v_ego ?sol ! 10)"
    by (simp_all add: py_index_def len)
  define dls where "dls = map (\<lambda>p. fl_sub (fst p) (snd p)) (zip (sol_x_l ?sol) (sol_x_ego ?sol))"
  have d: "np_sub (sol_x_l ?sol) (sol_x_ego ?sol) = Inr dls"
    by (simp add: np_sub_def len dls_def)
  have "length dls = 21" by (simp add: dls_def len)
  then have "dls \<noteq> []" by auto
  then obtain md where md: "py_min dls = Inr md" using py_min_returns by blast
  have "sol_v_ego ?sol \<noteq> []" using len(2) by auto
  then obtain mv where mv: "py_min (sol_v_ego ?sol) = Inr mv" using py_min_returns by blast
  have "mpc_read_solution lib CS t s \<noteq> Inl e" for e
    by (simp add: mpc_read_solution_def bindE_def Let_def i d md mv)
  then show ?thesis by (cases "mpc_read_solution lib CS t s") auto
qed

lemma mpc_update_returns:
  assumes "\<And>cur sol tau a TR l. wf_log (fst (snd (lib_run_mpc lib cur sol tau a TR l)))"
  shows "\<exists>s'. mpc_update lib CS ld v t s = Inr s'"
proof -
  obtain s1 a where lb:
    "mpc_lead_branch lib CS ld (s\<lparr>cur_state := (cur_state s)\<lparr>st_x_ego := Num 0\<rparr>\<rparr>) = (s1, a)"
    by (cases "mpc_lead_branch lib CS ld (s\<lparr>cur_state := (cur_state s)\<lparr>st_x_ego := Num 0\<rparr>\<rparr>)")
  obtain s2 TR where sel: "mpc_select_TR lib CS s1 = Inr (s2, TR)"
    using mpc_select_TR_returns[of lib CS s1] by auto
  obtain cur sol n l where run:
    "lib_run_mpc lib (cur_state s2) (mpc_solution s2) (a_lead_tau s2) a TR (solver s2) = (cur, sol, n, l)"
    by (cases "lib_run_mpc lib (cur_state s2) (mpc_solution s2) (a_lead_tau s2) a TR (solver s2)")
  have "wf_log sol"
    using assms[of "cur_state s2" "mpc_solution s2" "a_lead_tau s2" a TR "solver s2"] run by simp
  then have "wf_log (mpc_solution (s2\<lparr>cur_state := cur, mpc_solution := sol, solver := l\<rparr>))"
    by simp
  from mpc_read_solution_returns[OF this, of lib CS t] obtain s' where
    "mpc_read_solution lib CS t (s2\<lparr>cur_state := cur, mpc_solution := sol, solver := l\<rparr>) = Inr s'"
    by blast
  then show ?thesis
    by (simp add: mpc_update_def lb sel run bindE_def Let_def)
qed

text \<open>The stand-in solver on the concrete inputs.\<close>

lemma read_sol_ok:
  assumes "mpc_solution s = sol_ok"
  shows "mpc_read_solution lib CS t s = Inr (s\<lparr>v_mpc := Num 1, a_mpc := Num 0, v_mpc_future := Num 1\<rparr>)"
  by (simp add: mpc_read_solution_def assms sol_ok_def bindE_def Let_def
      py_index_replicate np_sub_replicate py_min_replicate list_ex_replicate)

lemma select_TR_default: "readdistancelines CS = 0 \<Longrightarrow> mpc_select_TR lib CS s = Inr (s, Num 1.8)"
  by (simp add: mpc_select_TR_def)

lemma lead_branch_none:
  "mpc_lead_branch lib CS None s =
     (s\<lparr>prev_lead_status := False,
        cur_state := (cur_state s)\<lparr>st_x_l := Num 50, st_v_l := Num (vEgo CS + 10)\<rparr>,
        a_lead_tau := LEAD_ACCEL_TAU lib\<rparr>, 0)"
  by (simp add: mpc_lead_branch_def)

lemma lead_branch_lead0:
  "mpc_lead_branch lib CS (Some lead0) s =
     ((if \<not> prev_lead_status s \<or> \<bar>30 - prev_lead_x s\<bar> > 2.5
       then s\<lparr>a_lead_tau := 1.5,
               solver := lib_init_with_simulation lib (v_mpc s) 30 10 0 1.5 (solver s),
               new_lead := True\<rparr>
       else s\<lparr>a_lead_tau := 1.5, new_lead := False\<rparr>)
      \<lparr>prev_lead_status := True, prev_lead_x := 30,
        cur_state := (cur_state s)\<lparr>st_x_l := Num 30, st_v_l := Num 10\<rparr>\<rparr>, 0)"
  by (simp add: mpc_lead_branch_def lead0_def Let_def)

lemma lib0_simps:
  "lib_run_mpc lib0 cur sol tau a TR l = (cur, sol_ok, 3, l)"
  "lib_init_with_simulation lib0 v x vl al tau l = l"
  "lib_init lib0 c1 c2 c3 c4 l = l"
  "LEAD_ACCEL_TAU lib0 = 1.5"
  by (simp_all add: lib0_def env0_def libmpc.truncate_def)

lemma lib_nan_simps:
  "lib_run_mpc lib_nan cur sol tau a TR l = (cur, sol_nan, 3, l)"
  by (simp_all add: lib_nan_def)

lemma CS0_simps: "readdistancelines CS0 = 0" "vEgo CS0 = 20" "aEgo CS0 = 0"
  by (simp_all add: CS0_def)

lemma mpc0_simps:
  "prev_lead_status mpc0 = False"
  "cur_state mpc0 = \<lparr>st_x_ego = Num 0, st_v_ego = Num 0, st_a_ego = Num 0, st_x_l = Num 0,
     st_v_l = Num 0\<rparr>"
  "v_mpc mpc0 = Num 0" "solver mpc0 = ()" "new_lead mpc0 = False"
  by (simp_all add: mpc0_def LongitudinalMpc_init_def)

lemma mpc_update_first: "mpc_update lib0 CS0 (Some lead0) 20 7 mpc0 = Inr mpc_seen"
  by (simp add: mpc_update_def lead_branch_lead0 select_TR_default CS0_simps lib0_simps
      mpc0_simps read_sol_ok bindE_def Let_def mpc_seen_def)

lemma mpc_seen_simps:
  "cur_state mpc_seen = \<lparr>st_x_ego = Num 0, st_v_ego = Num 0, st_a_ego = Num 0, st_x_l = Num 30,
     st_v_l = Num 10\<rparr>"
  "a_lead_tau mpc_seen = 1.5" "new_lead mpc_seen = True" "prev_lead_status mpc_seen = True"
  "v_mpc mpc_seen = Num 1" "a_mpc mpc_seen = Num 0" "v_mpc_future mpc_seen = Num 1"
  "mpc_solution mpc_seen = sol_ok"
  by (simp_all add: mpc_seen_def)

lemma mpc_update_second: "mpc_update lib0 CS0 None 20 8 mpc_seen = Inr mpc_lost"
  by (simp add: mpc_update_def lead_branch_none select_TR_default CS0_simps lib0_simps
      mpc_seen_simps read_sol_ok bindE_def Let_def mpc_lost_def)

lemma mpc_update_nan_run:
  "\<exists>s'. mpc_update lib_nan CS0 None 20 7 mpc0 = Inr s' \<and> mpc_solution s' = sol_nan"
proof -
  have wf: "wf_log (fst (snd (lib_run_mpc lib_nan cur sol tau a TR l)))" for cur sol tau a TR l
    by (simp add: lib_nan_simps wf_log_def sol_nan_def sol_ok_def)
  from mpc_update_returns[of lib_nan CS0 None 20 7 mpc0, OF wf] obtain s' where
    u: "mpc_update lib_nan CS0 None 20 7 mpc0 = Inr s'" by blast
  from mpc_update_solution[OF u] have "mpc_solution s' = sol_nan"
    by (auto simp: lib_nan_simps)
  with u show ?thesis by blast
qed

text \<open>
  C4. If the solver returns a NaN in the \<^verbatim>\<open>v_ego\<close> trajectory, then after
  \<^verbatim>\<open>LongitudinalMpc.update\<close> returns, \<^verbatim>\<open>cur_state.v_ego\<close> is the ego speed
  \<^verbatim>\<open>CS.vEgo\<close>, \<^verbatim>\<open>cur_state.a_ego\<close> is 0, \<^verbatim>\<open>v_mpc\<close> is \<^verbatim>\<open>CS.vEgo\<close>, \<^verbatim>\<open>a_mpc\<close> is
  \<^verbatim>\<open>CS.aEgo\<close> and \<^verbatim>\<open>prev_lead_status\<close> is false. The solution the wrapper holds on
  return is the one the solver wrote in the call.
\<close>

theorem mpc_update_nan_reset:
  assumes "mpc_update lib CS ld v t s = Inr s'"
    and "list_ex is_nan (sol_v_ego (mpc_solution s'))"
  shows "st_v_ego (cur_state s') = Num (vEgo CS) \<and> st_a_ego (cur_state s') = Num 0
     \<and> v_mpc s' = Num (vEgo CS) \<and> a_mpc s' = Num (aEgo CS) \<and> \<not> prev_lead_status s'
     \<and> (\<exists>cur sol tau a TR l. mpc_solution s' = fst (snd (lib_run_mpc lib cur sol tau a TR l)))"
  using mpc_update_nan_reset_aux[OF assms] mpc_update_solution[OF assms(1)] by blast

theorem mpc_update_nan_reset_witness:
  "\<exists>s'. mpc_update lib_nan CS0 None 20 7 mpc0 = Inr s'
     \<and> list_ex is_nan (sol_v_ego (mpc_solution s'))
     \<and> st_v_ego (cur_state s') = Num 20 \<and> st_a_ego (cur_state s') = Num 0
     \<and> v_mpc s' = Num 20 \<and> a_mpc s' = Num 0 \<and> \<not> prev_lead_status s'"
proof -
  from mpc_update_nan_run obtain s' where
    u: "mpc_update lib_nan CS0 None 20 7 mpc0 = Inr s'" and sol: "mpc_solution s' = sol_nan"
    by blast
  have n: "list_ex is_nan (sol_v_ego (mpc_solution s'))"
    by (simp add: sol sol_nan_def list_ex_replicate)
  from mpc_update_nan_reset[OF u n] u n show ?thesis
    by (auto simp: CS0_simps)
qed

text \<open>
  C6. The claim: after every call of \<^verbatim>\<open>LongitudinalMpc.update\<close>, \<^verbatim>\<open>new_lead\<close> is
  true exactly when a present lead caused re-seeding in that call, and false after every
  other call, also one with no lead. The code clears \<^verbatim>\<open>new_lead\<close> only inside the
  lead branch: a first call with a lead sets it, and a second call with no lead leaves
  it set.
\<close>

theorem mpc_update_new_lead_stays:
  "mpc_update lib0 CS0 (Some lead0) 20 7 mpc0 = Inr mpc_seen \<and> new_lead mpc_seen
     \<and> mpc_update lib0 CS0 None 20 8 mpc_seen = Inr mpc_lost \<and> new_lead mpc_lost
     \<and> \<not> prev_lead_status mpc_lost"
  by (simp add: mpc_update_first mpc_update_second mpc_seen_simps mpc_lost_def)

lemma sqrt_25: "sqrt 25 = 5"
  by (rule real_sqrt_unique) simp_all

lemma NO_CURVATURE_SPEED_value: "NO_CURVATURE_SPEED = 89.408"
  by (simp add: NO_CURVATURE_SPEED_def MPH_TO_MS_def)

subsection \<open>The choice of the solution\<close>

lemma fl_lt_irrefl: "\<not> fl_lt a a"
  by (cases a) simp_all

lemma fl_lt_below: "fl_lt b c \<Longrightarrow> \<not> fl_lt y c \<Longrightarrow> \<not> fl_lt y b"
  by (cases b; cases c; cases y) simp_all

lemma foldl_min_step:
  assumes "\<forall>y \<in> S. \<not> fl_lt (snd y) (snd kv)"
  shows "foldl min_step kv kvs \<in> insert kv (set kvs)
     \<and> (\<forall>y \<in> S \<union> insert kv (set kvs). \<not> fl_lt (snd y) (snd (foldl min_step kv kvs)))"
  using assms
proof (induction kvs arbitrary: kv S)
  case Nil
  then show ?case by (simp add: fl_lt_irrefl)
next
  case (Cons x xs)
  let ?c = "min_step kv x"
  have inv: "\<forall>y \<in> S \<union> {kv, x}. \<not> fl_lt (snd y) (snd ?c)"
  proof (cases "fl_lt (snd x) (snd kv)")
    case True
    then have c: "?c = x" by (simp add: min_step_def)
    show ?thesis using Cons.prems True fl_lt_below[OF True] by (auto simp: c fl_lt_irrefl)
  next
    case False
    then have c: "?c = kv" by (simp add: min_step_def)
    show ?thesis using Cons.prems False by (auto simp: c fl_lt_irrefl)
  qed
  have mem: "?c \<in> {kv, x}" by (simp add: min_step_def)
  from Cons.IH[OF inv] mem show ?case by auto
qed

lemma py_min_key_least:
  assumes "kvs \<noteq> []"
  shows "\<exists>k v. py_min_key kvs = Inr k \<and> (k, v) \<in> set kvs
     \<and> (\<forall>y \<in> set kvs. \<not> fl_lt (snd y) v)"
proof -
  obtain x xs where kvs: "kvs = x # xs" using assms by (cases kvs) auto
  have "\<forall>y \<in> {}. \<not> fl_lt (snd y) (snd x)" by simp
  from foldl_min_step[OF this, of xs]
  have "foldl min_step x xs \<in> set kvs"
    and "\<forall>y \<in> set kvs. \<not> fl_lt (snd y) (snd (foldl min_step x xs))"
    by (auto simp: kvs)
  then show ?thesis
    by (intro exI[of _ "fst (foldl min_step x xs)"] exI[of _ "snd (foldl min_step x xs)"])
       (simp add: kvs)
qed

lemma dict_items_set: "set (dict_items rank d) = set d"
  by (simp add: dict_items_def)

lemma dict_items_nonempty: "d \<noteq> [] \<Longrightarrow> dict_items rank d \<noteq> []"
  using dict_items_set[of rank d] by (metis set_empty)

lemma solutions_of_set:
  "set (solutions_of s) = {(''cruise'', v_cruise s)}
     \<union> (if prev_lead_status (mpc1 s) then {(''mpc1'', v_mpc (mpc1 s))} else {})
     \<union> (if prev_lead_status (mpc2 s) then {(''mpc2'', v_mpc (mpc2 s))} else {})"
  by (simp add: solutions_of_def)

lemma choose_solution_disabled:
  "choose_solution rank vcs False s =
     Inr (s\<lparr>v_acc_future := foldl py_min2 (v_mpc_future (mpc1 s)) [v_mpc_future (mpc2 s), Num vcs]\<rparr>)"
  by (simp add: choose_solution_def bindE_def)

lemma py_min_three_numbers: "py_min [Num a, Num b, Num c] = Inr (Num (min (min a b) c))"
  by (simp add: py_min2_def min_def)

lemma choose_solution_enabled_aux:
  "\<exists>s'. choose_solution rank vcs True s = Inr s'
     \<and> ((longitudinalPlanSource s' = ''cruise'' \<and> v_acc s' = v_cruise s \<and> a_acc s' = a_cruise s)
        \<or> (longitudinalPlanSource s' = ''mpc1'' \<and> prev_lead_status (mpc1 s)
            \<and> v_acc s' = v_mpc (mpc1 s) \<and> a_acc s' = a_mpc (mpc1 s))
        \<or> (longitudinalPlanSource s' = ''mpc2'' \<and> prev_lead_status (mpc2 s)
            \<and> v_acc s' = v_mpc (mpc2 s) \<and> a_acc s' = a_mpc (mpc2 s)))
     \<and> \<not> fl_lt (v_cruise s) (v_acc s')
     \<and> (prev_lead_status (mpc1 s) \<longrightarrow> \<not> fl_lt (v_mpc (mpc1 s)) (v_acc s'))
     \<and> (prev_lead_status (mpc2 s) \<longrightarrow> \<not> fl_lt (v_mpc (mpc2 s)) (v_acc s'))
     \<and> v_cruise s' = v_cruise s \<and> mpc1 s' = mpc1 s \<and> mpc2 s' = mpc2 s"
proof -
  have ne: "dict_items rank (solutions_of s) \<noteq> []"
    by (rule dict_items_nonempty) (simp add: solutions_of_def)
  from py_min_key_least[OF ne] obtain k v where
    k: "py_min_key (dict_items rank (solutions_of s)) = Inr k"
    and mem: "(k, v) \<in> set (solutions_of s)"
    and least: "\<forall>y \<in> set (solutions_of s). \<not> fl_lt (snd y) v"
    by (auto simp: dict_items_set)
  from mem consider
      (cruise) "k = ''cruise''" "v = v_cruise s"
    | (m1) "k = ''mpc1''" "v = v_mpc (mpc1 s)" "prev_lead_status (mpc1 s)"
    | (m2) "k = ''mpc2''" "v = v_mpc (mpc2 s)" "prev_lead_status (mpc2 s)"
    by (auto simp: solutions_of_set split: if_splits)
  then show ?thesis
  proof cases
    case cruise
    with k least show ?thesis
      by (auto simp: choose_solution_def bindE_def Let_def solutions_of_set)
  next
    case m1
    with k least show ?thesis
      by (auto simp: choose_solution_def bindE_def Let_def solutions_of_set)
  next
    case m2
    with k least show ?thesis
      by (auto simp: choose_solution_def bindE_def Let_def solutions_of_set)
  qed
qed

text \<open>
  With \<^verbatim>\<open>enabled\<close> true the arbiter returns, \<^verbatim>\<open>longitudinalPlanSource\<close> names an
  available candidate (cruise always, a solver wrapper only if its
  \<^verbatim>\<open>prev_lead_status\<close> holds), \<^verbatim>\<open>v_acc\<close> and \<^verbatim>\<open>a_acc\<close> are that candidate's velocity
  and acceleration, and no available candidate's velocity compares below \<^verbatim>\<open>v_acc\<close>.
\<close>

lemma choose_solution_enabled:
  "\<exists>s'. choose_solution rank vcs True s = Inr s'
     \<and> ((longitudinalPlanSource s' = ''cruise'' \<and> v_acc s' = v_cruise s \<and> a_acc s' = a_cruise s)
        \<or> (longitudinalPlanSource s' = ''mpc1'' \<and> prev_lead_status (mpc1 s)
            \<and> v_acc s' = v_mpc (mpc1 s) \<and> a_acc s' = a_mpc (mpc1 s))
        \<or> (longitudinalPlanSource s' = ''mpc2'' \<and> prev_lead_status (mpc2 s)
            \<and> v_acc s' = v_mpc (mpc2 s) \<and> a_acc s' = a_mpc (mpc2 s)))
     \<and> \<not> fl_lt (v_cruise s) (v_acc s')
     \<and> (prev_lead_status (mpc1 s) \<longrightarrow> \<not> fl_lt (v_mpc (mpc1 s)) (v_acc s'))
     \<and> (prev_lead_status (mpc2 s) \<longrightarrow> \<not> fl_lt (v_mpc (mpc2 s)) (v_acc s'))
     \<and> (\<forall>c m1 m2. v_cruise s = Num c \<and> v_mpc (mpc1 s) = Num m1 \<and> v_mpc (mpc2 s) = Num m2
          \<longrightarrow> (\<exists>a. v_acc s' = Num a \<and> a \<le> c
                \<and> (prev_lead_status (mpc1 s) \<longrightarrow> a \<le> m1)
                \<and> (prev_lead_status (mpc2 s) \<longrightarrow> a \<le> m2)))
     \<and> v_cruise s' = v_cruise s \<and> mpc1 s' = mpc1 s \<and> mpc2 s' = mpc2 s"
proof -
  from choose_solution_enabled_aux[of rank vcs s] obtain s' where
    c: "choose_solution rank vcs True s = Inr s'"
    and d: "(longitudinalPlanSource s' = ''cruise'' \<and> v_acc s' = v_cruise s \<and> a_acc s' = a_cruise s)
        \<or> (longitudinalPlanSource s' = ''mpc1'' \<and> prev_lead_status (mpc1 s)
            \<and> v_acc s' = v_mpc (mpc1 s) \<and> a_acc s' = a_mpc (mpc1 s))
        \<or> (longitudinalPlanSource s' = ''mpc2'' \<and> prev_lead_status (mpc2 s)
            \<and> v_acc s' = v_mpc (mpc2 s) \<and> a_acc s' = a_mpc (mpc2 s))"
    and l0: "\<not> fl_lt (v_cruise s) (v_acc s')"
    and l1: "prev_lead_status (mpc1 s) \<longrightarrow> \<not> fl_lt (v_mpc (mpc1 s)) (v_acc s')"
    and l2: "prev_lead_status (mpc2 s) \<longrightarrow> \<not> fl_lt (v_mpc (mpc2 s)) (v_acc s')"
    and f: "v_cruise s' = v_cruise s" "mpc1 s' = mpc1 s" "mpc2 s' = mpc2 s"
    by blast
  have n: "\<exists>a. v_acc s' = Num a \<and> a \<le> c
                \<and> (prev_lead_status (mpc1 s) \<longrightarrow> a \<le> m1)
                \<and> (prev_lead_status (mpc2 s) \<longrightarrow> a \<le> m2)"
    if "v_cruise s = Num c \<and> v_mpc (mpc1 s) = Num m1 \<and> v_mpc (mpc2 s) = Num m2" for c m1 m2
    using that d l0 l1 l2 by (auto simp: not_less)
  from c d l0 l1 l2 n f show ?thesis by blast
qed

text \<open>
  C10. For every call of \<^verbatim>\<open>choose_solution\<close> with \<^verbatim>\<open>enabled\<close> false, \<^verbatim>\<open>v_acc\<close>,
  \<^verbatim>\<open>a_acc\<close> and \<^verbatim>\<open>longitudinalPlanSource\<close> are left unchanged, \<^verbatim>\<open>v_acc_future\<close> is
  Python's \<^verbatim>\<open>min\<close> of \<^verbatim>\<open>mpc1.v_mpc_future\<close>, \<^verbatim>\<open>mpc2.v_mpc_future\<close> and
  \<^verbatim>\<open>v_cruise_setpoint\<close>, and no other field of the planner is modified: putting the
  old \<^verbatim>\<open>v_acc_future\<close> back gives the planner before the call.
\<close>

theorem choose_solution_disabled_frame:
  "\<exists>s'. choose_solution rank vcs False s = Inr s'
     \<and> v_acc s' = v_acc s \<and> a_acc s' = a_acc s
     \<and> longitudinalPlanSource s' = longitudinalPlanSource s
     \<and> py_min [v_mpc_future (mpc1 s), v_mpc_future (mpc2 s), Num vcs] = Inr (v_acc_future s')
     \<and> s'\<lparr>v_acc_future := v_acc_future s\<rparr> = s"
  by (simp add: choose_solution_disabled)

subsection \<open>The radar tick\<close>

text \<open>
  C2. The claim: on every tick with a radar message the planner latches the relative
  velocity into both solver wrappers. The code makes the call through the class with
  the value alone, which raises \<^verbatim>\<open>TypeError\<close>; the handler's call with 0 raises it
  again. Whatever the planner and the lead are, the latch ends in the exception and
  \<^verbatim>\<open>rel_vel\<close> is never written.
\<close>

theorem latch_rel_vel_raises: "latch_rel_vel s = Inl TypeError"
  by (cases "lead_1 s") (simp_all add: latch_rel_vel_def)

lemma call_one_arg: "call_get_relative_velocity [FloatArg x] s = Inl TypeError"
  by simp


lemma on_radar_raises:
  "on_radar env CS lcs v fsd ct t1 t2 r s = Inl TypeError"
  by (cases "leadOne r") (simp add: on_radar_def Let_def latch_rel_vel_def bindE_def)

lemma poll_loop_append: "poll_loop (ms @ ms') acc = poll_loop ms' (poll_loop ms acc)"
  by (induction ms acc rule: poll_loop.induct) simp_all

lemma poll_loop_keeps_l20:
  "fst (snd acc) \<noteq> None \<Longrightarrow> fst (snd (poll_loop ms acc)) \<noteq> None"
  by (induction ms acc rule: poll_loop.induct) simp_all

lemma poll_loop_finds_l20: "fst (snd (poll_loop (ms @ Live20 r # ms') acc)) \<noteq> None"
proof -
  obtain md l g s where p: "poll_loop ms acc = (md, l, g, s)" by (cases "poll_loop ms acc") auto
  show ?thesis
    by (simp add: poll_loop_append p poll_loop_keeps_l20)
qed

text \<open>A tick whose poll delivers a radar message ends in the exception of the latch.\<close>

lemma Planner_update_live20:
  "Planner_update env CS LaC lcs v fsd ct t1 t2 (ms @ Live20 r # ms') s = Inl TypeError"
proof -
  obtain md l g s0 where p: "poll_loop (ms @ Live20 r # ms') (None, None, None, s) = (md, l, g, s0)"
    by (cases "poll_loop (ms @ Live20 r # ms') (None, None, None, s)") auto
  from poll_loop_finds_l20[of ms r ms' "(None, None, None, s)"] p
  obtain r' where l: "l = Some r'" by auto
  show ?thesis
    by (simp add: Planner_update_def p l Let_def on_radar_raises bindE_def)
qed

text \<open>
  C1. The claim: in every tick of \<^verbatim>\<open>Planner.update\<close> no exception leaves the planner
  and a plan is sent at the end, also in a tick that receives a radar message. In the
  code every tick whose poll delivers a \<^verbatim>\<open>live20\<close> message ends with the
  \<^verbatim>\<open>TypeError\<close> of the call that latches the relative velocity, whatever the other
  inputs are: the exception leaves \<^verbatim>\<open>update\<close> and no plan is sent.
\<close>

theorem update_radar_tick_raises:
  "Planner_update env CS LaC lcs v fsd ct t1 t2 (ms @ Live20 r # ms') s = Inl TypeError"
  by (rule Planner_update_live20)



subsection \<open>The end of a tick\<close>









subsection \<open>Speed limit and curvature\<close>

text \<open>
  The map block of the radar branch on its own, with map data present: the validity of
  the map is only recorded, the speed limit is applied if it is valid and the
  parameters enable it, and the curvature bound is computed inside that branch.
\<close>

lemma map_limits_by_validity:
  assumes "last_live_map_data s = Some m"
  shows "(speedLimitValid m \<and> params_get env ''LimitSetSpeed'' = Some ''1''
            \<and> params_get env ''SpeedLimitOffset'' = Some str \<and> py_float env str = Some offs
          \<longrightarrow> (\<exists>s'. map_limits env s = Inr s' \<and> v_speedlimit s' = speedLimit m + offs
                \<and> map_valid s' = mapValid m
                \<and> v_curvature s' = (if curvatureValid m
                     then min NO_CURVATURE_SPEED (sqrt (A_Y_MAX / max 0.0001 \<bar>curvature m\<bar>))
                     else NO_CURVATURE_SPEED)))
       \<and> (\<not> (speedLimitValid m \<and> params_get env ''LimitSetSpeed'' = Some ''1''
               \<and> params_get env ''SpeedLimitOffset'' \<noteq> None)
          \<longrightarrow> (\<exists>s'. map_limits env s = Inr s' \<and> v_speedlimit s' = NO_CURVATURE_SPEED
                \<and> map_valid s' = mapValid m))
       \<and> (\<forall>s'. map_limits env s = Inr s' \<and> \<not> curvatureValid m
          \<longrightarrow> v_curvature s' = NO_CURVATURE_SPEED)"
  using assms
  by (auto simp: map_limits_def bindE_def Let_def split: option.splits if_splits)

lemma env0_params:
  "params_get env0 ''LimitSetSpeed'' = Some ''1''"
  "params_get env0 ''SpeedLimitOffset'' = Some ''0''"
  "py_float env0 ''0'' = Some 0"
  by (simp_all add: env0_def)

text \<open>
  C5. The claim: on every radar tick with map data present, \<^verbatim>\<open>v_speedlimit\<close> and
  \<^verbatim>\<open>v_curvature\<close> are set from the map. On a tick that brings map data with a valid
  map, a valid speed limit of 25 and a valid curvature, with the speed limit enabled at
  offset 0, and a radar message, the claim gives 25 and 5. The code leaves \<^verbatim>\<open>update\<close>
  with the \<^verbatim>\<open>TypeError\<close> of the latch, which stands before the map block; after the
  ticks that return both bounds are still \<^verbatim>\<open>NO_CURVATURE_SPEED\<close>.
\<close>

theorem update_radar_tick_map_unread:
  "Planner_update env0 CS0 LaC0 pid 100 False 1 2 3 [LiveMapData map_curve, Live20 live20_default]
     planner0 = Inl TypeError
   \<and> mapValid map_curve \<and> speedLimitValid map_curve \<and> curvatureValid map_curve
   \<and> speedLimit map_curve = 25
   \<and> sqrt (A_Y_MAX / max 0.0001 \<bar>curvature map_curve\<bar>) = 5
   \<and> params_get env0 ''LimitSetSpeed'' = Some ''1''
   \<and> params_get env0 ''SpeedLimitOffset'' = Some ''0'' \<and> py_float env0 ''0'' = Some 0
   \<and> v_speedlimit planner0 = NO_CURVATURE_SPEED \<and> v_curvature planner0 = NO_CURVATURE_SPEED"
proof -
  have "Planner_update env0 CS0 LaC0 pid 100 False 1 2 3
          ([LiveMapData map_curve] @ Live20 live20_default # []) planner0 = Inl TypeError"
    by (rule Planner_update_live20)
  moreover have "sqrt (A_Y_MAX / max 0.0001 \<bar>curvature map_curve\<bar>) = 5"
    by (simp add: A_Y_MAX_def map_curve_def sqrt_25)
  moreover have "v_speedlimit planner0 = NO_CURVATURE_SPEED \<and> v_curvature planner0 = NO_CURVATURE_SPEED"
    by (simp add: planner0_def Planner_init_def)
  moreover have "mapValid map_curve \<and> speedLimitValid map_curve \<and> curvatureValid map_curve
      \<and> speedLimit map_curve = 25"
    by (simp add: map_curve_def)
  ultimately show ?thesis by (simp add: env0_params)
qed

end
